theory Spec2Isabelle
  imports Main
begin

section \<open>Python values\<close>

text \<open>
  The monitor keeps values that come out of \<^verbatim>\<open>json.load\<close>: the state file's
  \<^verbatim>\<open>pull_count\<close> and the email configuration. They are modelled as the Python objects
  the decoder builds. A dict is an association list read with \<open>map_of\<close>. Floats are
  kept opaque (type parameter \<open>'f\<close>); the four float operations the program can reach
  are passed in as a record, so nothing is assumed about floating-point arithmetic.
\<close>

datatype 'f pyval =
    PNone
  | PBool bool
  | PInt int
  | PFloat 'f
  | PStr string
  | PList "'f pyval list"
  | PDict "(string \<times> 'f pyval) list"

record 'f float_ops =
  f_add_one :: "'f \<Rightarrow> 'f"
  f_str :: "'f \<Rightarrow> string"
  f_nonzero :: "'f \<Rightarrow> bool"
  f_eq_int :: "'f \<Rightarrow> int \<Rightarrow> bool"

datatype exn =
    FileNotFoundError
  | JSONDecodeError
  | UnicodeDecodeError
  | ValueError
  | RecursionError
  | AttributeError
  | TypeError
  | KeyError string
  | OSError
  | SMTPException

text \<open>Truth value of an object, as \<^verbatim>\<open>if x\<close> and \<^verbatim>\<open>x and y\<close> test it.\<close>

fun py_truthy :: "'f float_ops \<Rightarrow> 'f pyval \<Rightarrow> bool" where
  "py_truthy fl PNone = False"
| "py_truthy fl (PBool b) = b"
| "py_truthy fl (PInt n) = (n \<noteq> 0)"
| "py_truthy fl (PFloat x) = f_nonzero fl x"
| "py_truthy fl (PStr s) = (s \<noteq> [])"
| "py_truthy fl (PList xs) = (xs \<noteq> [])"
| "py_truthy fl (PDict kvs) = (kvs \<noteq> [])"

text \<open>\<^verbatim>\<open>v == n\<close> for an int literal \<open>n\<close>; \<^verbatim>\<open>True == 1\<close> and \<^verbatim>\<open>False == 0\<close> in Python.\<close>

fun py_eq_int :: "'f float_ops \<Rightarrow> 'f pyval \<Rightarrow> int \<Rightarrow> bool" where
  "py_eq_int fl (PInt k) n = (k = n)"
| "py_eq_int fl (PBool b) n = ((if b then 1 else 0) = n)"
| "py_eq_int fl (PFloat x) n = f_eq_int fl x n"
| "py_eq_int fl _ n = False"

text \<open>\<^verbatim>\<open>d[key]\<close> with a string key: only a dict can answer.\<close>

fun py_getitem :: "'f pyval \<Rightarrow> string \<Rightarrow> exn + 'f pyval" where
  "py_getitem (PDict kvs) key =
     (case map_of kvs key of None \<Rightarrow> Inl (KeyError key) | Some v \<Rightarrow> Inr v)"
| "py_getitem _ key = Inl TypeError"

text \<open>\<^verbatim>\<open>d.get(key, default)\<close>: only a dict has the method.\<close>

fun py_get :: "'f pyval \<Rightarrow> string \<Rightarrow> 'f pyval \<Rightarrow> exn + 'f pyval" where
  "py_get (PDict kvs) key dflt =
     (case map_of kvs key of None \<Rightarrow> Inr dflt | Some v \<Rightarrow> Inr v)"
| "py_get _ key dflt = Inl AttributeError"

text \<open>
  \<^verbatim>\<open>x += 1\<close>: defined on the numbers (a bool is an int), a TypeError on every other
  object. The result is a number, kept apart so that formatting it needs no
  \<^verbatim>\<open>str\<close> of lists and dicts.
\<close>

datatype 'f pynum = NInt int | NFloat 'f

fun num_val :: "'f pynum \<Rightarrow> 'f pyval" where
  "num_val (NInt n) = PInt n"
| "num_val (NFloat x) = PFloat x"

fun py_iadd_one :: "'f float_ops \<Rightarrow> 'f pyval \<Rightarrow> exn + 'f pynum" where
  "py_iadd_one fl (PInt n) = Inr (NInt (n + 1))"
| "py_iadd_one fl (PBool b) = Inr (NInt ((if b then 1 else 0) + 1))"
| "py_iadd_one fl (PFloat x) = Inr (NFloat (f_add_one fl x))"
| "py_iadd_one fl _ = Inl TypeError"

section \<open>Strings\<close>

text \<open>
  A Python \<^verbatim>\<open>str\<close> is modelled as a \<open>string\<close>. The program compares characters
  only with the ASCII characters \<^verbatim>\<open><\<close>, \<^verbatim>\<open>>\<close> and \<^verbatim>\<open>/\<close>, which no byte of a
  multi-byte UTF-8 sequence equals.
\<close>

definition digit_char :: "nat \<Rightarrow> char" where
  "digit_char d = ''0123456789'' ! (d mod 10)"

fun digits :: "nat \<Rightarrow> string" where
  "digits n = (if n < 10 then [digit_char n] else digits (n div 10) @ [digit_char (n mod 10)])"

declare digits.simps [simp del]

text \<open>
  \<^verbatim>\<open>str(n)\<close> of an int. The interpreter's limit on the digits of such a conversion
  (4300 by default) is not modelled.
\<close>

definition str_int :: "int \<Rightarrow> string" where
  "str_int n = (if n < 0 then CHR ''-'' # digits (nat (- n)) else digits (nat n))"

text \<open>What the f-string \<^verbatim>\<open>{self.pull_count}\<close> renders after the increment.\<close>

fun num_str :: "'f float_ops \<Rightarrow> 'f pynum \<Rightarrow> string" where
  "num_str fl (NInt n) = str_int n"
| "num_str fl (NFloat x) = f_str fl x"

text \<open>Zero-padded decimal of a given width, as \<^verbatim>\<open>%m\<close>, \<^verbatim>\<open>%d\<close>, \<^verbatim>\<open>%H\<close> print.\<close>

definition zero_pad :: "nat \<Rightarrow> nat \<Rightarrow> string" where
  "zero_pad width n = replicate (width - length (digits n)) CHR ''0'' @ digits n"

definition startswith :: "string \<Rightarrow> string \<Rightarrow> bool" where
  "startswith s p = (take (length p) s = p)"

definition endswith :: "string \<Rightarrow> string \<Rightarrow> bool" where
  "endswith s x = (length x \<le> length s \<and> drop (length s - length x) s = x)"

text \<open>\<^verbatim>\<open>os.path.basename\<close>: what follows the last slash.\<close>

definition basename :: "string \<Rightarrow> string" where
  "basename p = rev (takeWhile (\<lambda>c. c \<noteq> CHR ''/'') (rev p))"

text \<open>\<^verbatim>\<open>sep.join(parts)\<close>.\<close>

fun join :: "string \<Rightarrow> string list \<Rightarrow> string" where
  "join sep [] = []"
| "join sep [p] = p"
| "join sep (p # q # ps) = p @ sep @ join sep (q # ps)"

subsection \<open>Markup stripping\<close>

text \<open>
  \<^verbatim>\<open>re.sub('<[^<]+?>', '', description)\<close>. The pattern is a \<^verbatim>\<open><\<close>, one or more
  characters other than \<^verbatim>\<open><\<close> taken lazily, and a \<^verbatim>\<open>>\<close>. After the opening
  character and one mandatory character (which may itself be \<^verbatim>\<open>>\<close>), the lazy
  repetition stops at the first \<^verbatim>\<open>>\<close> and fails at a \<^verbatim>\<open><\<close> or at the end of
  the text. \<open>tag_close\<close> scans for that end and returns the text after the match.
\<close>

fun tag_close :: "string \<Rightarrow> string option" where
  "tag_close [] = None"
| "tag_close (c # cs) =
     (if c = CHR ''>'' then Some cs
      else if c = CHR ''<'' then None
      else tag_close cs)"

text \<open>The pattern matched at the start of the text: the text left after the match.\<close>

fun tag_match :: "string \<Rightarrow> string option" where
  "tag_match (c # d # cs) =
     (if c = CHR ''<'' \<and> d \<noteq> CHR ''<'' then tag_close cs else None)"
| "tag_match _ = None"

lemma tag_close_shorter: "tag_close cs = Some r \<Longrightarrow> length r < length cs"
  by (induction cs) (auto split: if_splits)

lemma tag_match_shorter: "tag_match cs = Some r \<Longrightarrow> length r < length cs"
  by (cases cs rule: tag_match.cases) (auto split: if_splits dest: tag_close_shorter)

text \<open>
  \<^verbatim>\<open>re.sub\<close> walks the text from the left: a match is dropped and the walk goes on
  after it, otherwise the character is kept and the walk moves one position on.
\<close>

function strip_tags :: "string \<Rightarrow> string" where
  "strip_tags [] = []"
| "strip_tags (c # cs) =
     (case tag_match (c # cs) of
        Some r \<Rightarrow> strip_tags r
      | None \<Rightarrow> c # strip_tags cs)"
  by pat_completeness auto
termination
  by (relation "measure length") (auto dest: tag_match_shorter)

text \<open>Every \<^verbatim>\<open><\<close> of the text opens a tag span.\<close>

fun well_tagged :: "string \<Rightarrow> bool" where
  "well_tagged [] = True"
| "well_tagged (c # cs) =
     ((c \<noteq> CHR ''<'' \<or> tag_match (c # cs) \<noteq> None) \<and> well_tagged cs)"

section \<open>The monitor, the files and the environment\<close>

text \<open>The attributes of \<^verbatim>\<open>CVEMonitor\<close>. \<^verbatim>\<open>email_config=None\<close> is \<open>PNone\<close>.\<close>

record 'f monitor =
  rss_url :: string
  email_config :: "'f pyval"
  pull_count :: "'f pyval"

text \<open>
  What \<^verbatim>\<open>open("data/state.json", "r")\<close> followed by \<^verbatim>\<open>json.load\<close> makes of the state
  file: there is no file (FileNotFoundError), its bytes are not text in the locale's
  encoding (UnicodeDecodeError), the text is not JSON (JSONDecodeError), the text is
  JSON that the decoder refuses, or the text is JSON and \<^verbatim>\<open>json.load\<close> returns the
  value it decodes to. The decoder refuses valid JSON in two ways: an integer literal
  of more digits than the interpreter converts (4300 by default) raises ValueError, and
  nesting deeper than the recursion limit raises RecursionError. Writing a value with
  \<^verbatim>\<open>json.dump\<close> and reading it back with \<^verbatim>\<open>json.load\<close> gives the value again, so a
  saved state is recorded as the value it decodes to.
\<close>

datatype 'f state_file =
    NoFile
  | NotText
  | NotJson
  | Json_int_too_long
  | Json_too_deep
  | Json "'f pyval"

text \<open>One line of the log, by the call that writes it (lines 44 to 181 of the source).\<close>

datatype 'f log_event =
    Info_loaded_state "'f pyval"
  | Info_no_valid_state
  | Info_saved_state "'f pyval"
  | Info_fetching string
  | Error_parsing string
  | Info_fetched nat
  | Error_fetch_failed string
  | Warning_no_entries
  | Info_generated string
  | Warning_email_not_configured
  | Info_email_sent
  | Error_email_failed exn
  | Info_starting_rss_update
  | Info_starting_daily_email
  | Info_scheduler_started

text \<open>
  The message \<^verbatim>\<open>send_email\<close> builds, before MIME serialisation: the three headers,
  the plain-text body, and each attachment's file name and content.
\<close>

record 'f message =
  msg_from :: "'f pyval"
  msg_to :: string
  msg_subject :: string
  msg_body :: string
  msg_attachments :: "(string \<times> string) list"

text \<open>The calls made on \<^verbatim>\<open>smtplib\<close>, in order, the failing one included.\<close>

datatype 'f smtp_call =
    SMTP_SSL "'f pyval" "'f pyval"
  | SMTP "'f pyval" "'f pyval"
  | Starttls
  | Login "'f pyval" "'f pyval"
  | Sendmail "'f pyval" "'f pyval" "'f message"
  | Quit

text \<open>
  Everything outside the process: the state file, the files of the \<^verbatim>\<open>data\<close>
  directory other than the state file (name and content), the log, and the calls
  received by the mail transport.
\<close>

record 'f world =
  state_file :: "'f state_file"
  data_dir :: "(string \<times> string) list"
  log :: "'f log_event list"
  smtp_calls :: "'f smtp_call list"

record datetime =
  year :: nat
  month :: nat
  day :: nat
  hour :: nat
  minute :: nat
  second :: nat

text \<open>A feed entry, by what \<^verbatim>\<open>entry.get(key, default)\<close> finds: \<open>None\<close> gives the default.\<close>

record entry =
  title :: "string option"
  link :: "string option"
  published :: "string option"
  description :: "string option"

record feed =
  bozo :: bool
  bozo_exception :: string
  entries :: "entry list"

text \<open>\<^verbatim>\<open>feedparser.parse(url)\<close> returns a feed or raises (with the exception's text).\<close>

datatype fetch_outcome = Parse_returns feed | Parse_raises string

text \<open>
  How writing a file goes: it succeeds, \<^verbatim>\<open>open\<close> raises, or a later write raises after
  some characters (fewer than the whole text) have reached the file.
\<close>

datatype io = Io_ok | Io_open_fails | Io_write_fails nat

text \<open>What one call of a method meets outside the process.\<close>

record env =
  now :: datetime
  feed_result :: fetch_outcome
  report_io :: io
  state_io :: io
  smtp_connect_ok :: bool
  smtp_starttls_ok :: bool
  smtp_login_ok :: bool
  smtp_sendmail_ok :: bool
  smtp_quit_ok :: bool

text \<open>
  A method returns a value or raises, and in both cases leaves the object and the
  world in some state.
\<close>

type_synonym ('f, 'a) outcome = "(exn + 'a) \<times> 'f monitor \<times> 'f world"

definition add_log :: "'f log_event \<Rightarrow> 'f world \<Rightarrow> 'f world" where
  "add_log ev w = w\<lparr>log := log w @ [ev]\<rparr>"

text \<open>\<^verbatim>\<open>open(path, "w")\<close> and a complete write: the file is created or replaced.\<close>

fun put_file :: "string \<Rightarrow> string \<Rightarrow> (string \<times> string) list \<Rightarrow> (string \<times> string) list" where
  "put_file name text [] = [(name, text)]"
| "put_file name text ((n, t) # fs) =
     (if n = name then (name, text) # fs else (n, t) # put_file name text fs)"

text \<open>\<^verbatim>\<open>strftime("%Y-%m-%d")\<close> and \<^verbatim>\<open>strftime("%H%M%S")\<close>.\<close>

definition date_str :: "datetime \<Rightarrow> string" where
  "date_str t = zero_pad 4 (year t) @ ''-'' @ zero_pad 2 (month t) @ ''-'' @ zero_pad 2 (day t)"

definition time_str :: "datetime \<Rightarrow> string" where
  "time_str t = zero_pad 2 (hour t) @ zero_pad 2 (minute t) @ zero_pad 2 (second t)"

section \<open>State store\<close>

text \<open>
  \<^verbatim>\<open>load_state\<close>: the handler catches FileNotFoundError and JSONDecodeError only.
  A UnicodeDecodeError raised while reading, a ValueError or RecursionError raised by
  the decoder, and the AttributeError of \<^verbatim>\<open>state.get\<close> on a decoded value that is
  not a dict, leave the method.
\<close>

definition load_state :: "'f monitor \<Rightarrow> 'f world \<Rightarrow> ('f, unit) outcome" where
  "load_state m w =
     (case state_file w of
        NoFile \<Rightarrow> (Inr (), m\<lparr>pull_count := PInt 0\<rparr>, add_log Info_no_valid_state w)
      | NotText \<Rightarrow> (Inl UnicodeDecodeError, m, w)
      | NotJson \<Rightarrow> (Inr (), m\<lparr>pull_count := PInt 0\<rparr>, add_log Info_no_valid_state w)
      | Json_int_too_long \<Rightarrow> (Inl ValueError, m, w)
      | Json_too_deep \<Rightarrow> (Inl RecursionError, m, w)
      | Json state \<Rightarrow>
          (case py_get state ''pull_count'' (PInt 0) of
             Inl e \<Rightarrow> (Inl e, m, w)
           | Inr v \<Rightarrow> (Inr (), m\<lparr>pull_count := v\<rparr>, add_log (Info_loaded_state v) w)))"

text \<open>\<^verbatim>\<open>__init__\<close>: the counter starts at 0 and the state is loaded.\<close>

definition init :: "string \<Rightarrow> 'f pyval \<Rightarrow> 'f world \<Rightarrow> ('f, unit) outcome" where
  "init url config w =
     load_state \<lparr>rss_url = url, email_config = config, pull_count = PInt 0\<rparr> w"

text \<open>
  \<^verbatim>\<open>save_state\<close>: \<^verbatim>\<open>open(..., "w")\<close> truncates the file, so a write that fails after
  \<^verbatim>\<open>open\<close> leaves a text that is not JSON.
\<close>

definition save_state :: "env \<Rightarrow> 'f monitor \<Rightarrow> 'f world \<Rightarrow> ('f, unit) outcome" where
  "save_state e m w =
     (case state_io e of
        Io_open_fails \<Rightarrow> (Inl OSError, m, w)
      | Io_write_fails k \<Rightarrow> (Inl OSError, m, w\<lparr>state_file := NotJson\<rparr>)
      | Io_ok \<Rightarrow>
          (Inr (), m,
           add_log (Info_saved_state (pull_count m))
             (w\<lparr>state_file := Json (PDict [(''pull_count'', pull_count m)])\<rparr>)))"

text \<open>The counter the state file holds, when it is a JSON object that has one.\<close>

definition persisted_pull_count :: "'f world \<Rightarrow> 'f pyval option" where
  "persisted_pull_count w =
     (case state_file w of Json (PDict kvs) \<Rightarrow> map_of kvs ''pull_count'' | _ \<Rightarrow> None)"

section \<open>Feed fetcher\<close>

text \<open>\<^verbatim>\<open>fetch_rss_feed\<close>: \<open>None\<close> for a bozo feed and for an exception alike.\<close>

definition fetch_rss_feed :: "env \<Rightarrow> 'f monitor \<Rightarrow> 'f world \<Rightarrow> ('f, feed option) outcome" where
  "fetch_rss_feed e m w =
     (let w1 = add_log (Info_fetching (rss_url m)) w in
      case feed_result e of
        Parse_raises msg \<Rightarrow> (Inr None, m, add_log (Error_fetch_failed msg) w1)
      | Parse_returns fd \<Rightarrow>
          if bozo fd then (Inr None, m, add_log (Error_parsing (bozo_exception fd)) w1)
          else (Inr (Some fd), m, add_log (Info_fetched (length (entries fd))) w1))"

section \<open>Report writer\<close>

definition or_default :: "string option \<Rightarrow> string \<Rightarrow> string" where
  "or_default v dflt = (case v of None \<Rightarrow> dflt | Some s \<Rightarrow> s)"

text \<open>The four lines written for one entry (lines 91 to 98).\<close>

definition entry_section :: "entry \<Rightarrow> string" where
  "entry_section en =
     ''## '' @ or_default (title en) ''Untitled'' @ [CHR 0x0A] @
     ''- **Link**: ['' @ or_default (link en) ''No link'' @ '']('' @
        or_default (link en) ''No link'' @ '')'' @ [CHR 0x0A] @
     ''- **Published**: '' @ or_default (published en) ''Unknown'' @ [CHR 0x0A] @
     ''- **Description**: '' @
        strip_tags (or_default (description en) ''No description'') @ [CHR 0x0A, CHR 0x0A]"

text \<open>The first line of a report (line 87).\<close>

definition report_header :: "string \<Rightarrow> string \<Rightarrow> string \<Rightarrow> string" where
  "report_header ds ts count =
     ''# CVE Vulnerability Report - '' @ ds @ '' '' @ ts @ '' UTC (Pull #'' @ count @ '')'' @
     [CHR 0x0A, CHR 0x0A]"

definition report_text :: "string \<Rightarrow> string \<Rightarrow> string \<Rightarrow> string \<Rightarrow> entry list \<Rightarrow> string" where
  "report_text url ds ts count ens =
     report_header ds ts count @ ''Source: '' @ url @ [CHR 0x0A, CHR 0x0A] @
     concat (map entry_section ens)"

text \<open>The file name inside \<^verbatim>\<open>data/\<close> (line 83).\<close>

definition report_name :: "string \<Rightarrow> string \<Rightarrow> string \<Rightarrow> string" where
  "report_name ds ts count = ds @ ''-'' @ ts @ ''-pull'' @ count @ ''.md''"

text \<open>
  \<^verbatim>\<open>generate_markdown\<close>. The counter is incremented before the file is opened, and
  nothing in the method catches an exception: a TypeError of the increment, an OSError
  of the report's write and an OSError of \<^verbatim>\<open>save_state\<close> all leave it.
\<close>

definition generate_markdown ::
  "'f float_ops \<Rightarrow> env \<Rightarrow> 'f monitor \<Rightarrow> 'f world \<Rightarrow> feed option \<Rightarrow> ('f, string option) outcome" where
  "generate_markdown fl e m w fd_opt =
     (case fd_opt of
        None \<Rightarrow> (Inr None, m, add_log Warning_no_entries w)
      | Some fd \<Rightarrow>
          if entries fd = [] then (Inr None, m, add_log Warning_no_entries w)
          else
            (case py_iadd_one fl (pull_count m) of
               Inl x \<Rightarrow> (Inl x, m, w)
             | Inr n \<Rightarrow>
                 (let m1 = m\<lparr>pull_count := num_val n\<rparr>;
                      ds = date_str (now e);
                      ts = time_str (now e);
                      name = report_name ds ts (num_str fl n);
                      text = report_text (rss_url m) ds ts (num_str fl n) (entries fd)
                  in case report_io e of
                       Io_open_fails \<Rightarrow> (Inl OSError, m1, w)
                     | Io_write_fails k \<Rightarrow>
                         (Inl OSError, m1, w\<lparr>data_dir := put_file name (take k text) (data_dir w)\<rparr>)
                     | Io_ok \<Rightarrow>
                         (case save_state e m1
                                 (add_log (Info_generated (''data/'' @ name))
                                    (w\<lparr>data_dir := put_file name text (data_dir w)\<rparr>)) of
                            (Inl x, m2, w2) \<Rightarrow> (Inl x, m2, w2)
                          | (Inr u, m2, w2) \<Rightarrow> (Inr (Some (''data/'' @ name)), m2, w2)))))"

section \<open>Fetch cycle\<close>

text \<open>
  \<^verbatim>\<open>run_rss_update\<close>. A feed object that \<^verbatim>\<open>fetch_rss_feed\<close> returns is a non-empty
  dict, hence true; the report writer is then called whatever the number of entries.
\<close>

definition run_rss_update ::
  "'f float_ops \<Rightarrow> env \<Rightarrow> 'f monitor \<Rightarrow> 'f world \<Rightarrow> ('f, string list) outcome" where
  "run_rss_update fl e m w =
     (case fetch_rss_feed e m (add_log Info_starting_rss_update w) of
        (Inl x, m1, w1) \<Rightarrow> (Inl x, m1, w1)
      | (Inr None, m1, w1) \<Rightarrow> (Inr [], m1, w1)
      | (Inr (Some fd), m1, w1) \<Rightarrow>
          (case generate_markdown fl e m1 w1 (Some fd) of
             (Inl x, m2, w2) \<Rightarrow> (Inl x, m2, w2)
           | (Inr None, m2, w2) \<Rightarrow> (Inr [], m2, w2)
           | (Inr (Some f), m2, w2) \<Rightarrow> (Inr [f], m2, w2)))"

text \<open>
  A run of report writes, one call of \<^verbatim>\<open>generate_markdown\<close> per element, stopped by
  the first exception. For each artifact it records the file name returned, the
  content the file has when the call returns, and the counter the state file holds at
  that moment.
\<close>

fun generate_all ::
  "'f float_ops \<Rightarrow> (env \<times> feed) list \<Rightarrow> 'f monitor \<Rightarrow> 'f world \<Rightarrow>
     ('f, (string \<times> string option \<times> 'f pyval option) list) outcome" where
  "generate_all fl [] m w = (Inr [], m, w)"
| "generate_all fl (c # cs) m w =
     (case generate_markdown fl (fst c) m w (Some (snd c)) of
        (Inl x, m1, w1) \<Rightarrow> (Inl x, m1, w1)
      | (Inr None, m1, w1) \<Rightarrow> generate_all fl cs m1 w1
      | (Inr (Some f), m1, w1) \<Rightarrow>
          (case generate_all fl cs m1 w1 of
             (Inl x, m2, w2) \<Rightarrow> (Inl x, m2, w2)
           | (Inr arts, m2, w2) \<Rightarrow>
               (Inr ((f, map_of (data_dir w1) (drop 5 f), persisted_pull_count w1) # arts),
                m2, w2)))"

section \<open>Digest notifier\<close>

text \<open>The items \<^verbatim>\<open>', '.join(x)\<close> iterates over; every item must be a \<^verbatim>\<open>str\<close>.\<close>

fun all_strs :: "'f pyval list \<Rightarrow> string list option" where
  "all_strs [] = Some []"
| "all_strs (PStr s # vs) = map_option ((#) s) (all_strs vs)"
| "all_strs (_ # vs) = None"

fun join_items :: "'f pyval \<Rightarrow> exn + string list" where
  "join_items (PList vs) = (case all_strs vs of None \<Rightarrow> Inl TypeError | Some ss \<Rightarrow> Inr ss)"
| "join_items (PStr s) = Inr (map (\<lambda>c. [c]) s)"
| "join_items (PDict kvs) = Inr (map fst kvs)"
| "join_items _ = Inl TypeError"

text \<open>
  \<^verbatim>\<open>open(file, 'rb')\<close> and \<^verbatim>\<open>read\<close>, for the paths the digest passes: reports inside
  \<^verbatim>\<open>data/\<close>. Any other path is absent in this model.
\<close>

definition read_file :: "'f world \<Rightarrow> string \<Rightarrow> exn + string" where
  "read_file w path =
     (if startswith path ''data/'' then
        (case map_of (data_dir w) (drop 5 path) of
           None \<Rightarrow> Inl FileNotFoundError
         | Some t \<Rightarrow> Inr t)
      else Inl FileNotFoundError)"

fun read_attachments :: "'f world \<Rightarrow> string list \<Rightarrow> exn + (string \<times> string) list" where
  "read_attachments w [] = Inr []"
| "read_attachments w (f # fs) =
     (case read_file w f of
        Inl x \<Rightarrow> Inl x
      | Inr t \<Rightarrow>
          (case read_attachments w fs of
             Inl x \<Rightarrow> Inl x
           | Inr atts \<Rightarrow> Inr ((basename f, t) # atts)))"

text \<open>Lines 112 to 132: headers, body and attachments. \<^verbatim>\<open>if report_files\<close> is false for
  \<^verbatim>\<open>None\<close> and for the empty list.\<close>

definition compose_message ::
  "env \<Rightarrow> 'f monitor \<Rightarrow> 'f world \<Rightarrow> string list option \<Rightarrow> exn + 'f message" where
  "compose_message e m w report_files =
     (case py_getitem (email_config m) ''from'' of
        Inl x \<Rightarrow> Inl x
      | Inr frm \<Rightarrow>
     (case py_getitem (email_config m) ''to'' of
        Inl x \<Rightarrow> Inl x
      | Inr rcpts \<Rightarrow>
     (case join_items rcpts of
        Inl x \<Rightarrow> Inl x
      | Inr addrs \<Rightarrow>
     (let files = (case report_files of None \<Rightarrow> [] | Some fs \<Rightarrow> fs);
          body = ''Daily CVE vulnerability report is attached.'' @ [CHR 0x0A, CHR 0x0A] @
            (if files = [] then []
             else ''Generated reports:'' @ [CHR 0x0A] @
                  concat (map (\<lambda>f. ''- '' @ basename f @ [CHR 0x0A]) files))
      in case read_attachments w files of
           Inl x \<Rightarrow> Inl x
         | Inr atts \<Rightarrow>
             Inr \<lparr>msg_from = frm, msg_to = join '', '' addrs,
                  msg_subject = ''CVE Vulnerability Report - '' @ date_str (now e),
                  msg_body = body, msg_attachments = atts\<rparr>))))"

text \<open>Lines 145 and 146: \<^verbatim>\<open>sendmail\<close>, then \<^verbatim>\<open>quit\<close>.\<close>

definition smtp_deliver ::
  "env \<Rightarrow> 'f pyval \<Rightarrow> 'f message \<Rightarrow> 'f smtp_call list \<Rightarrow> exn option \<times> 'f smtp_call list" where
  "smtp_deliver e cfg msg calls =
     (case py_getitem cfg ''from'' of
        Inl x \<Rightarrow> (Some x, calls)
      | Inr frm \<Rightarrow>
     (case py_getitem cfg ''to'' of
        Inl x \<Rightarrow> (Some x, calls)
      | Inr rcpts \<Rightarrow>
          if \<not> smtp_sendmail_ok e then (Some SMTPException, calls @ [Sendmail frm rcpts msg])
          else if \<not> smtp_quit_ok e then (Some SMTPException, calls @ [Sendmail frm rcpts msg, Quit])
          else (None, calls @ [Sendmail frm rcpts msg, Quit])))"

text \<open>Lines 143 and 144: \<^verbatim>\<open>login\<close> when username and password are both true.\<close>

definition smtp_login ::
  "'f float_ops \<Rightarrow> env \<Rightarrow> 'f pyval \<Rightarrow> 'f message \<Rightarrow> 'f smtp_call list \<Rightarrow>
     exn option \<times> 'f smtp_call list" where
  "smtp_login fl e cfg msg calls =
     (case py_get cfg ''username'' PNone of
        Inl x \<Rightarrow> (Some x, calls)
      | Inr u \<Rightarrow>
          if \<not> py_truthy fl u then smtp_deliver e cfg msg calls
          else
            (case py_get cfg ''password'' PNone of
               Inl x \<Rightarrow> (Some x, calls)
             | Inr p \<Rightarrow>
                 if \<not> py_truthy fl p then smtp_deliver e cfg msg calls
                 else
                   (case py_getitem cfg ''username'' of
                      Inl x \<Rightarrow> (Some x, calls)
                    | Inr u1 \<Rightarrow>
                   (case py_getitem cfg ''password'' of
                      Inl x \<Rightarrow> (Some x, calls)
                    | Inr p1 \<Rightarrow>
                        if \<not> smtp_login_ok e then (Some SMTPException, calls @ [Login u1 p1])
                        else smtp_deliver e cfg msg (calls @ [Login u1 p1])))))"

text \<open>Lines 135 to 142: the transport is chosen by the port, STARTTLS by the flag.\<close>

definition smtp_connect ::
  "'f float_ops \<Rightarrow> env \<Rightarrow> 'f pyval \<Rightarrow> 'f message \<Rightarrow> exn option \<times> 'f smtp_call list" where
  "smtp_connect fl e cfg msg =
     (case py_getitem cfg ''smtp_port'' of
        Inl x \<Rightarrow> (Some x, [])
      | Inr port \<Rightarrow>
     (case py_getitem cfg ''smtp_server'' of
        Inl x \<Rightarrow> (Some x, [])
      | Inr host \<Rightarrow>
          if py_eq_int fl port 465 then
            (if \<not> smtp_connect_ok e then (Some OSError, [SMTP_SSL host port])
             else smtp_login fl e cfg msg [SMTP_SSL host port])
          else
            (if \<not> smtp_connect_ok e then (Some OSError, [SMTP host port])
             else
               (case py_get cfg ''use_tls'' (PBool False) of
                  Inl x \<Rightarrow> (Some x, [SMTP host port])
                | Inr t \<Rightarrow>
                    if py_truthy fl t then
                      (if \<not> smtp_starttls_ok e then (Some SMTPException, [SMTP host port, Starttls])
                       else smtp_login fl e cfg msg [SMTP host port, Starttls])
                    else smtp_login fl e cfg msg [SMTP host port]))))"

text \<open>\<^verbatim>\<open>send_email\<close>: every exception of the body is caught, logged and turned into
  \<^verbatim>\<open>False\<close>.\<close>

definition send_email ::
  "'f float_ops \<Rightarrow> env \<Rightarrow> 'f monitor \<Rightarrow> 'f world \<Rightarrow> string list option \<Rightarrow> ('f, bool) outcome" where
  "send_email fl e m w report_files =
     (if \<not> py_truthy fl (email_config m) then
        (Inr False, m, add_log Warning_email_not_configured w)
      else
        (case compose_message e m w report_files of
           Inl x \<Rightarrow> (Inr False, m, add_log (Error_email_failed x) w)
         | Inr msg \<Rightarrow>
             (case smtp_connect fl e (email_config m) msg of
                (Some x, calls) \<Rightarrow>
                  (Inr False, m,
                   add_log (Error_email_failed x) (w\<lparr>smtp_calls := smtp_calls w @ calls\<rparr>))
              | (None, calls) \<Rightarrow>
                  (Inr True, m,
                   add_log Info_email_sent (w\<lparr>smtp_calls := smtp_calls w @ calls\<rparr>)))))"

text \<open>\<^verbatim>\<open>os.listdir("data")\<close>: the reports, and the state file when there is one.\<close>

definition listdir :: "'f world \<Rightarrow> string list" where
  "listdir w =
     map fst (data_dir w) @ (case state_file w of NoFile \<Rightarrow> [] | _ \<Rightarrow> [''state.json''])"

text \<open>\<^verbatim>\<open>run_daily_email\<close>; \<open>today\<close> is the clock read at line 167.\<close>

definition run_daily_email ::
  "'f float_ops \<Rightarrow> datetime \<Rightarrow> env \<Rightarrow> 'f monitor \<Rightarrow> 'f world \<Rightarrow> ('f, unit) outcome" where
  "run_daily_email fl today e m w =
     (let w1 = add_log Info_starting_daily_email w;
          report_files =
            map (\<lambda>f. ''data/'' @ f)
              (filter (\<lambda>f. startswith f (date_str today) \<and> endswith f ''.md'') (listdir w1))
      in case send_email fl e m w1 (Some report_files) of
           (Inl x, m1, w2) \<Rightarrow> (Inl x, m1, w2)
         | (Inr sent, m1, w2) \<Rightarrow> (Inr (), m1, w2))"

section \<open>Scheduler loop\<close>

text \<open>
  The jobs the scheduler finds due, in the order it runs them, each with what it
  meets outside the process. \<^verbatim>\<open>schedule.run_pending\<close> lets a job's exception through.
\<close>

datatype job = Rss_update env | Daily_email datetime env

definition run_job :: "'f float_ops \<Rightarrow> job \<Rightarrow> 'f monitor \<Rightarrow> 'f world \<Rightarrow> ('f, unit) outcome" where
  "run_job fl j m w =
     (case j of
        Rss_update e \<Rightarrow>
          (case run_rss_update fl e m w of
             (Inl x, m1, w1) \<Rightarrow> (Inl x, m1, w1)
           | (Inr fs, m1, w1) \<Rightarrow> (Inr (), m1, w1))
      | Daily_email today e \<Rightarrow> run_daily_email fl today e m w)"

text \<open>
  The \<^verbatim>\<open>while True\<close> loop over a finite prefix of due jobs: \<open>Inl\<close> when an exception
  ends the process, \<open>Inr\<close> when the loop is still running after the prefix.
\<close>

fun scheduler_loop :: "'f float_ops \<Rightarrow> job list \<Rightarrow> 'f monitor \<Rightarrow> 'f world \<Rightarrow> ('f, unit) outcome" where
  "scheduler_loop fl [] m w = (Inr (), m, w)"
| "scheduler_loop fl (j # js) m w =
     (case run_job fl j m w of
        (Inl x, m1, w1) \<Rightarrow> (Inl x, m1, w1)
      | (Inr u, m1, w1) \<Rightarrow> scheduler_loop fl js m1 w1)"

text \<open>\<^verbatim>\<open>run_forever\<close>: one fetch cycle at once, then the loop.\<close>

definition run_forever ::
  "'f float_ops \<Rightarrow> env \<Rightarrow> job list \<Rightarrow> 'f monitor \<Rightarrow> 'f world \<Rightarrow> ('f, unit) outcome" where
  "run_forever fl e0 jobs m w =
     (case run_rss_update fl e0 m (add_log Info_scheduler_started w) of
        (Inl x, m1, w1) \<Rightarrow> (Inl x, m1, w1)
      | (Inr fs, m1, w1) \<Rightarrow> scheduler_loop fl jobs m1 w1)"

section \<open>Sample inputs\<close>

text \<open>
  Concrete inputs for the closed theorems below: float operations on a one-element
  type (no float occurs in them), an environment in which every outside operation
  succeeds, a world with a given state file and nothing else, a monitor with the default
  feed address, the instant 2024-01-01T00:00:05Z, an entry that has a title only, a
  well-formed feed, and an email configuration.
\<close>

definition unit_float_ops :: "unit float_ops" where
  "unit_float_ops =
     \<lparr>f_add_one = (\<lambda>x. x), f_str = (\<lambda>x. []), f_nonzero = (\<lambda>x. False),
      f_eq_int = (\<lambda>x n. False)\<rparr>"

definition calm_env :: "datetime \<Rightarrow> fetch_outcome \<Rightarrow> env" where
  "calm_env t r =
     \<lparr>now = t, feed_result = r, report_io = Io_ok, state_io = Io_ok,
      smtp_connect_ok = True, smtp_starttls_ok = True, smtp_login_ok = True,
      smtp_sendmail_ok = True, smtp_quit_ok = True\<rparr>"

definition world_with :: "'f state_file \<Rightarrow> 'f world" where
  "world_with sf = \<lparr>state_file = sf, data_dir = [], log = [], smtp_calls = []\<rparr>"

definition monitor_with :: "'f pyval \<Rightarrow> 'f pyval \<Rightarrow> 'f monitor" where
  "monitor_with config n =
     \<lparr>rss_url = ''https://cvefeed.io/rssfeed/severity/high.xml'', email_config = config,
      pull_count = n\<rparr>"

definition scenario_time :: datetime where
  "scenario_time = \<lparr>year = 2024, month = 1, day = 1, hour = 0, minute = 0, second = 5\<rparr>"

definition titled :: "string \<Rightarrow> entry" where
  "titled s = \<lparr>title = Some s, link = None, published = None, description = None\<rparr>"

definition feed_of :: "entry list \<Rightarrow> feed" where
  "feed_of ens = \<lparr>bozo = False, bozo_exception = [], entries = ens\<rparr>"

definition mail_config :: "int \<Rightarrow> 'f pyval" where
  "mail_config port =
     PDict [(''from'', PStr ''cve@example.org''), (''to'', PList [PStr ''ops@example.org'']),
            (''smtp_server'', PStr ''smtp.example.org''), (''smtp_port'', PInt port),
            (''use_tls'', PBool True), (''username'', PStr ''cve''), (''password'', PStr ''secret'')]"

section \<open>Auxiliary definitions of the proofs\<close>

text \<open>The number a string of decimal digits denotes.\<close>

definition digits_value :: "string \<Rightarrow> nat" where
  "digits_value s = foldl (\<lambda>a c. 10 * a + (of_char c - 48)) 0 s"

text \<open>The counter read back from a report's file name: what stands between
  \<^verbatim>\<open>pull\<close> and \<^verbatim>\<open>.md\<close>.\<close>

definition name_count :: "string \<Rightarrow> string" where
  "name_count name = rev (takeWhile (\<lambda>c. c \<noteq> CHR ''l'') (drop 3 (rev name)))"

text \<open>What a run of successful writes is expected to record: the artifact with counter
  \<open>j\<close> written by call \<open>c\<close>, and the artifacts of a run that starts after counter \<open>k\<close>.\<close>

definition artifact_name :: "int \<Rightarrow> env \<times> feed \<Rightarrow> string" where
  "artifact_name j c =
     ''data/'' @ report_name (date_str (now (fst c))) (time_str (now (fst c))) (str_int j)"

definition artifact_of :: "string \<Rightarrow> int \<Rightarrow> env \<times> feed \<Rightarrow> string \<times> string option \<times> 'f pyval option" where
  "artifact_of url j c =
     (artifact_name j c,
      Some (report_text url (date_str (now (fst c))) (time_str (now (fst c))) (str_int j)
              (entries (snd c))),
      Some (PInt j))"

fun artifacts_from :: "string \<Rightarrow> int \<Rightarrow> (env \<times> feed) list \<Rightarrow> (string \<times> string option \<times> 'f pyval option) list" where
  "artifacts_from url k [] = []"
| "artifacts_from url k (c # cs) = artifact_of url (k + 1) c # artifacts_from url (k + 1) cs"

section \<open>Markup stripping: one pass is not always enough\<close>

lemma tag_close_suffix: "tag_close cs = Some r \<Longrightarrow> \<exists>p. cs = p @ r"
proof (induction cs)
  case Nil
  then show ?case by simp
next
  case (Cons c cs)
  show ?case
  proof (cases "c = CHR ''>''")
    case True
    with Cons.prems have "r = cs" by simp
    then have "c # cs = [c] @ r" by simp
    then show ?thesis by blast
  next
    case False
    with Cons.prems have "tag_close cs = Some r" by (simp split: if_splits)
    then obtain p where "cs = p @ r" using Cons.IH by blast
    then have "c # cs = (c # p) @ r" by simp
    then show ?thesis by blast
  qed
qed

lemma tag_match_suffix: "tag_match cs = Some r \<Longrightarrow> \<exists>p. cs = p @ r"
proof (cases cs rule: tag_match.cases)
  case (1 c d cs')
  assume "tag_match cs = Some r"
  with 1 have "tag_close cs' = Some r" by (simp split: if_splits)
  then obtain p where "cs' = p @ r" using tag_close_suffix by blast
  with 1 have "cs = (c # d # p) @ r" by simp
  then show ?thesis by blast
qed simp_all

lemma well_tagged_suffix: "well_tagged (p @ r) \<Longrightarrow> well_tagged r"
  by (induction p) simp_all

lemma strip_tags_no_open: "well_tagged s \<Longrightarrow> CHR ''<'' \<notin> set (strip_tags s)"
proof (induction s rule: strip_tags.induct)
  case 1
  then show ?case by simp
next
  case (2 c cs)
  show ?case
  proof (cases "tag_match (c # cs)")
    case None
    with "2.prems" have "c \<noteq> CHR ''<''" and "well_tagged cs" by simp_all
    with None "2.IH" show ?thesis by simp
  next
    case (Some r)
    then obtain p where "c # cs = p @ r" using tag_match_suffix by blast
    with "2.prems" have "well_tagged r" using well_tagged_suffix by metis
    with Some "2.IH" show ?thesis by simp
  qed
qed

lemma tag_match_needs_open: "tag_match cs = Some r \<Longrightarrow> CHR ''<'' \<in> set cs"
  by (cases cs rule: tag_match.cases) (auto split: if_splits)

lemma strip_tags_fixed: "CHR ''<'' \<notin> set s \<Longrightarrow> strip_tags s = s"
proof (induction s)
  case Nil
  then show ?case by simp
next
  case (Cons c cs)
  have "tag_match (c # cs) = None"
  proof (cases "tag_match (c # cs)")
    case (Some r)
    then show ?thesis using tag_match_needs_open Cons.prems by blast
  qed simp
  with Cons show ?case by simp
qed

text \<open>
  C5, as stated: stripping the stripped text gives the stripped text, for every input.
  It fails on nested brackets. In \<^verbatim>\<open><<a>b>\<close> the first \<^verbatim>\<open><\<close> is followed by a
  \<^verbatim>\<open><\<close> and opens no span, \<^verbatim>\<open><a>\<close> is removed, and the text left, \<^verbatim>\<open><b>\<close>, is a
  span that a second pass removes.
\<close>

theorem strip_tags_not_idempotent:
  "strip_tags (strip_tags ''<<a>b>'') \<noteq> strip_tags ''<<a>b>''"
  by simp

text \<open>
  C5, amended: when every \<^verbatim>\<open><\<close> of the description opens a tag span (it is followed
  by a character other than \<^verbatim>\<open><\<close> and then, before any other \<^verbatim>\<open><\<close>, by a
  \<^verbatim>\<open>>\<close>), stripping the stripped text gives the stripped text.
\<close>

theorem strip_tags_idempotent_well_tagged:
  "well_tagged s \<Longrightarrow> strip_tags (strip_tags s) = strip_tags s"
  by (rule strip_tags_fixed) (rule strip_tags_no_open)

theorem strip_tags_idempotent_witness:
  "well_tagged ''a <b>bold</b> c'' \<and>
   strip_tags ''a <b>bold</b> c'' = ''a bold c'' \<and>
   strip_tags (strip_tags ''a <b>bold</b> c'') = strip_tags ''a <b>bold</b> c''"
proof -
  have h: "well_tagged ''a <b>bold</b> c''" by simp
  show ?thesis using h strip_tags_idempotent_well_tagged [OF h] by simp
qed

section \<open>Decimal rendering is injective\<close>

lemma digit_char_code: "d < 10 \<Longrightarrow> of_char (digit_char d) = (48 + d :: nat)"
proof -
  assume "d < 10"
  then consider "d = 0" | "d = 1" | "d = 2" | "d = 3" | "d = 4" | "d = 5" | "d = 6"
    | "d = 7" | "d = 8" | "d = 9"
    by atomize_elim arith
  then show ?thesis
    by cases (simp_all add: digit_char_def)
qed

lemma digits_value_snoc: "digits_value (s @ [c]) = 10 * digits_value s + (of_char c - 48)"
  by (simp add: digits_value_def)

lemma digits_value_digits: "digits_value (digits n) = n"
proof (induction n rule: digits.induct)
  case (1 n)
  show ?case
  proof (cases "n < 10")
    case True
    then show ?thesis
      by (simp add: digits.simps [of n] digits_value_def digit_char_code)
  next
    case False
    have "n mod 10 < 10" by simp
    then have "of_char (digit_char (n mod 10)) = (48 + n mod 10 :: nat)"
      by (rule digit_char_code)
    with False "1.IH" show ?thesis
      by (simp add: digits.simps [of n] digits_value_snoc)
  qed
qed

lemma digits_inj: "digits a = digits b \<Longrightarrow> a = b"
  by (metis digits_value_digits)

lemma digit_char_in: "digit_char d \<in> set ''0123456789''"
proof -
  have "d mod 10 < length ''0123456789''" by simp
  then show ?thesis unfolding digit_char_def by (rule nth_mem)
qed

lemma digits_chars: "set (digits n) \<subseteq> set ''0123456789''"
proof (induction n rule: digits.induct)
  case (1 n)
  show ?case
  proof (cases "n < 10")
    case True
    then show ?thesis using digit_char_in [of n] by (simp add: digits.simps [of n])
  next
    case False
    with "1.IH" digit_char_in [of "n mod 10"] show ?thesis
      by (simp add: digits.simps [of n])
  qed
qed

lemma digits_nonempty: "digits n \<noteq> []"
  by (simp add: digits.simps [of n])

lemma digits_no_minus: "digits n \<noteq> CHR ''-'' # s"
proof
  assume "digits n = CHR ''-'' # s"
  then have "CHR ''-'' \<in> set (digits n)" by simp
  with digits_chars [of n] show False by auto
qed

lemma str_int_inj: "str_int a = str_int b \<Longrightarrow> a = b"
proof -
  assume eq: "str_int a = str_int b"
  show ?thesis
  proof (cases "a < 0")
    case True
    show ?thesis
    proof (cases "b < 0")
      case True
      with \<open>a < 0\<close> eq have "digits (nat (- a)) = digits (nat (- b))"
        by (simp add: str_int_def)
      then have "nat (- a) = nat (- b)" by (rule digits_inj)
      with True \<open>a < 0\<close> show ?thesis by linarith
    next
      case False
      with \<open>a < 0\<close> eq have "digits (nat b) = CHR ''-'' # digits (nat (- a))"
        by (simp add: str_int_def)
      then show ?thesis using digits_no_minus by blast
    qed
  next
    case False
    show ?thesis
    proof (cases "b < 0")
      case True
      with \<open>\<not> a < 0\<close> eq have "digits (nat a) = CHR ''-'' # digits (nat (- b))"
        by (simp add: str_int_def)
      then show ?thesis using digits_no_minus by blast
    next
      case False
      with \<open>\<not> a < 0\<close> eq have "digits (nat a) = digits (nat b)"
        by (simp add: str_int_def)
      then have "nat a = nat b" by (rule digits_inj)
      with False \<open>\<not> a < 0\<close> show ?thesis by linarith
    qed
  qed
qed

lemma str_int_no_l: "CHR ''l'' \<notin> set (str_int n)"
  using digits_chars [of "nat n"] digits_chars [of "nat (- n)"]
  by (auto simp: str_int_def)

lemma name_count_report_name:
  assumes "CHR ''l'' \<notin> set c"
  shows "name_count (report_name d t c) = c"
proof -
  have "\<And>x. x \<in> set (rev c) \<Longrightarrow> x \<noteq> CHR ''l''" using assms by auto
  then have "takeWhile (\<lambda>x. x \<noteq> CHR ''l'') (rev c @ rev (d @ ''-'' @ t @ ''-pull'')) =
      rev c @ takeWhile (\<lambda>x. x \<noteq> CHR ''l'') (rev (d @ ''-'' @ t @ ''-pull''))"
    by (rule takeWhile_append2)
  then show ?thesis by (simp add: name_count_def report_name_def)
qed

lemma report_name_inj:
  assumes "report_name d t (str_int a) = report_name d' t' (str_int b)"
  shows "a = b"
proof -
  have "name_count (report_name d t (str_int a)) = str_int a"
    by (rule name_count_report_name) (rule str_int_no_l)
  moreover have "name_count (report_name d' t' (str_int b)) = str_int b"
    by (rule name_count_report_name) (rule str_int_no_l)
  ultimately have "str_int a = str_int b" using assms by simp
  then show ?thesis by (rule str_int_inj)
qed

section \<open>The report writer on an integer counter\<close>

lemma generate_markdown_int:
  assumes "entries fd \<noteq> []" and "pull_count m = PInt k"
  shows "generate_markdown fl e m w (Some fd) =
     (let m1 = m\<lparr>pull_count := PInt (k + 1)\<rparr>;
          name = report_name (date_str (now e)) (time_str (now e)) (str_int (k + 1));
          text = report_text (rss_url m) (date_str (now e)) (time_str (now e)) (str_int (k + 1))
                   (entries fd)
      in case report_io e of
           Io_open_fails \<Rightarrow> (Inl OSError, m1, w)
         | Io_write_fails n \<Rightarrow>
             (Inl OSError, m1, w\<lparr>data_dir := put_file name (take n text) (data_dir w)\<rparr>)
         | Io_ok \<Rightarrow>
             (case state_io e of
                Io_open_fails \<Rightarrow>
                  (Inl OSError, m1,
                   add_log (Info_generated (''data/'' @ name))
                     (w\<lparr>data_dir := put_file name text (data_dir w)\<rparr>))
              | Io_write_fails n \<Rightarrow>
                  (Inl OSError, m1,
                   (add_log (Info_generated (''data/'' @ name))
                      (w\<lparr>data_dir := put_file name text (data_dir w)\<rparr>))\<lparr>state_file := NotJson\<rparr>)
              | Io_ok \<Rightarrow>
                  (Inr (Some (''data/'' @ name)), m1,
                   add_log (Info_saved_state (PInt (k + 1)))
                     ((add_log (Info_generated (''data/'' @ name))
                        (w\<lparr>data_dir := put_file name text (data_dir w)\<rparr>))
                      \<lparr>state_file := Json (PDict [(''pull_count'', PInt (k + 1))])\<rparr>))))"
  using assms
  by (simp add: generate_markdown_def save_state_def Let_def split: io.splits)

lemma map_of_put_file: "map_of (put_file name text fs) name = Some text"
  by (induction fs) auto

lemma map_of_put_file_other:
  "n \<noteq> name \<Longrightarrow> map_of (put_file name text fs) n = map_of fs n"
  by (induction fs) auto

lemma generate_markdown_ok:
  assumes "entries fd \<noteq> []" and "pull_count m = PInt k"
    and "report_io e = Io_ok" and "state_io e = Io_ok"
  shows "\<exists>w1. generate_markdown fl e m w (Some fd) =
            (Inr (Some (''data/'' @ report_name (date_str (now e)) (time_str (now e)) (str_int (k + 1)))),
             m\<lparr>pull_count := PInt (k + 1)\<rparr>, w1) \<and>
          persisted_pull_count w1 = Some (PInt (k + 1)) \<and>
          map_of (data_dir w1) (report_name (date_str (now e)) (time_str (now e)) (str_int (k + 1))) =
            Some (report_text (rss_url m) (date_str (now e)) (time_str (now e)) (str_int (k + 1))
                    (entries fd))"
  unfolding generate_markdown_int [OF assms(1,2)]
  using assms(3,4)
  by (simp add: Let_def add_log_def persisted_pull_count_def map_of_put_file)

lemma generate_all_ok:
  assumes "\<forall>c\<in>set calls. report_io (fst c) = Io_ok \<and> state_io (fst c) = Io_ok \<and> entries (snd c) \<noteq> []"
    and "pull_count m = PInt k"
  shows "\<exists>m' w'. generate_all fl calls m w = (Inr (artifacts_from (rss_url m) k calls), m', w') \<and>
           pull_count m' = PInt (k + int (length calls)) \<and>
           (calls = [] \<longrightarrow> w' = w) \<and>
           (calls \<noteq> [] \<longrightarrow> persisted_pull_count w' = Some (PInt (k + int (length calls))))"
  using assms
proof (induction calls arbitrary: m w k)
  case Nil
  then show ?case by simp
next
  case (Cons c cs)
  from Cons.prems(1) have ok: "report_io (fst c) = Io_ok" "state_io (fst c) = Io_ok"
      "entries (snd c) \<noteq> []"
    and rest: "\<forall>c\<in>set cs. report_io (fst c) = Io_ok \<and> state_io (fst c) = Io_ok \<and> entries (snd c) \<noteq> []"
    by simp_all
  let ?name = "report_name (date_str (now (fst c))) (time_str (now (fst c))) (str_int (k + 1))"
  let ?m1 = "m\<lparr>pull_count := PInt (k + 1)\<rparr>"
  from generate_markdown_ok [OF ok(3) Cons.prems(2) ok(1,2), of fl w]
  obtain w1 where step: "generate_markdown fl (fst c) m w (Some (snd c)) = (Inr (Some (''data/'' @ ?name)), ?m1, w1)"
    and pers: "persisted_pull_count w1 = Some (PInt (k + 1))"
    and content: "map_of (data_dir w1) ?name =
       Some (report_text (rss_url m) (date_str (now (fst c))) (time_str (now (fst c))) (str_int (k + 1))
               (entries (snd c)))"
    by blast
  have pc1: "pull_count ?m1 = PInt (k + 1)" by simp
  from Cons.IH [OF rest pc1, of w1]
  obtain m' w' where tail: "generate_all fl cs ?m1 w1 = (Inr (artifacts_from (rss_url ?m1) (k + 1) cs), m', w')"
    and pc': "pull_count m' = PInt (k + 1 + int (length cs))"
    and same: "cs = [] \<longrightarrow> w' = w1"
    and pers': "cs \<noteq> [] \<longrightarrow> persisted_pull_count w' = Some (PInt (k + 1 + int (length cs)))"
    by blast
  have "generate_all fl (c # cs) m w = (Inr (artifacts_from (rss_url m) k (c # cs)), m', w')"
    using step tail pers content by (simp add: artifact_of_def artifact_name_def)
  moreover have "pull_count m' = PInt (k + int (length (c # cs)))"
    using pc' by (simp add: algebra_simps)
  moreover have "persisted_pull_count w' = Some (PInt (k + int (length (c # cs))))"
  proof (cases "cs = []")
    case True
    with same pers show ?thesis by simp
  next
    case False
    with pers' show ?thesis by (simp add: algebra_simps)
  qed
  ultimately show ?case by blast
qed

lemma artifacts_from_length: "length (artifacts_from url k cs) = length cs"
  by (induction cs arbitrary: k) simp_all

lemma artifacts_from_nth:
  "i < length cs \<Longrightarrow> artifacts_from url k cs ! i = artifact_of url (k + 1 + int i) (cs ! i)"
proof (induction cs arbitrary: k i)
  case Nil
  then show ?case by simp
next
  case (Cons c cs)
  show ?case
  proof (cases i)
    case 0
    then show ?thesis by simp
  next
    case (Suc j)
    with Cons.prems have "j < length cs" by simp
    from Cons.IH [OF this, of "k + 1"] Suc show ?thesis by (simp add: algebra_simps)
  qed
qed

lemma artifacts_from_later:
  "x \<in> set (artifacts_from url k cs) \<Longrightarrow>
     \<exists>j d t. k < j \<and> fst x = ''data/'' @ report_name d t (str_int j)"
proof (induction cs arbitrary: k)
  case Nil
  then show ?case by simp
next
  case (Cons c cs)
  from Cons.prems consider "x = artifact_of url (k + 1) c" | "x \<in> set (artifacts_from url (k + 1) cs)"
    by auto
  then show ?case
  proof cases
    case 1
    then have "fst x = ''data/'' @ report_name (date_str (now (fst c))) (time_str (now (fst c))) (str_int (k + 1))"
      by (simp add: artifact_of_def artifact_name_def)
    moreover have "k < k + 1" by simp
    ultimately show ?thesis by blast
  next
    case 2
    then obtain j d t where "k + 1 < j" and "fst x = ''data/'' @ report_name d t (str_int j)"
      using Cons.IH by blast
    moreover then have "k < j" by simp
    ultimately show ?thesis by blast
  qed
qed

lemma artifacts_from_distinct:
  "distinct (map fst (artifacts_from url k cs :: (string \<times> string option \<times> 'f pyval option) list))"
proof (induction cs arbitrary: k)
  case Nil
  then show ?case by simp
next
  case (Cons c cs)
  let ?tail = "artifacts_from url (k + 1) cs :: (string \<times> string option \<times> 'f pyval option) list"
  have "artifact_name (k + 1) c \<notin> fst ` set ?tail"
  proof
    assume "artifact_name (k + 1) c \<in> fst ` set ?tail"
    then obtain x where x: "x \<in> set ?tail" and eq: "fst x = artifact_name (k + 1) c"
      by (auto simp: image_iff)
    from artifacts_from_later [OF x] obtain j d t where "k + 1 < j"
      and "fst x = ''data/'' @ report_name d t (str_int j)" by blast
    with eq have "report_name d t (str_int j) =
        report_name (date_str (now (fst c))) (time_str (now (fst c))) (str_int (k + 1))"
      by (simp add: artifact_name_def)
    then have "j = k + 1" by (rule report_name_inj)
    with \<open>k + 1 < j\<close> show False by simp
  qed
  with Cons.IH [of "k + 1"] show ?case by (simp add: artifact_of_def)
qed

section \<open>Evaluation on numerals\<close>

lemma digits_numeral [simp]:
  "digits (numeral v) =
     (if (numeral v :: nat) < 10 then [digit_char (numeral v)]
      else digits (numeral v div 10) @ [digit_char (numeral v mod 10)])"
  by (rule digits.simps)

lemma digits_0 [simp]: "digits 0 = ''0''"
  by (simp add: digits.simps [of 0] digit_char_def)

lemma digits_1 [simp]: "digits (Suc 0) = ''1''"
  by (simp add: digits.simps [of "Suc 0"] digit_char_def)

lemmas eval_defs =
  run_rss_update_def fetch_rss_feed_def generate_markdown_def save_state_def
  add_log_def calm_env_def feed_of_def titled_def scenario_time_def date_str_def time_str_def
  zero_pad_def str_int_def digit_char_def report_name_def report_text_def report_header_def
  entry_section_def or_default_def Let_def world_with_def monitor_with_def unit_float_ops_def

lemmas mail_defs = send_email_def compose_message_def smtp_connect_def smtp_login_def smtp_deliver_def
  mail_config_def

section \<open>Counter and artifacts in lockstep\<close>

text \<open>
  C1. A monitor is loaded from a state file whose \<^verbatim>\<open>pull_count\<close> is the integer \<open>k\<close>,
  and \<^verbatim>\<open>generate_markdown\<close> is then called \<open>N\<close> times, each time with entries and with
  both file writes succeeding. Then every call returns, the state file afterwards holds
  \<open>k + N\<close>, and so does the object; the \<open>i\<close>-th artifact (from 0) is named
  \<^verbatim>\<open>data/<date>-<time>-pull<k+1+i>.md\<close>, its text starts with the header line
  \<^verbatim>\<open># CVE Vulnerability Report - <date> <time> UTC (Pull #<k+1+i>)\<close>, and \<open>k + 1 + i\<close>
  is the counter the state file holds when the call that created it returns; no two
  artifacts share a file name.
\<close>

theorem pull_count_lockstep:
  assumes loaded: "load_state m0 w0 = (r, m, w)"
    and persisted: "persisted_pull_count w0 = Some (PInt k)"
    and ok: "\<forall>c\<in>set calls. report_io (fst c) = Io_ok \<and> state_io (fst c) = Io_ok \<and> entries (snd c) \<noteq> []"
  shows "r = Inr () \<and>
    (\<exists>arts m' w'. generate_all fl calls m w = (Inr arts, m', w') \<and>
       persisted_pull_count w' = Some (PInt (k + int (length calls))) \<and>
       pull_count m' = PInt (k + int (length calls)) \<and>
       length arts = length calls \<and>
       (\<forall>i<length calls.
          arts ! i =
            (''data/'' @ date_str (now (fst (calls ! i))) @ ''-'' @ time_str (now (fst (calls ! i))) @
               ''-pull'' @ str_int (k + 1 + int i) @ ''.md'',
             Some (''# CVE Vulnerability Report - '' @ date_str (now (fst (calls ! i))) @ '' '' @
                   time_str (now (fst (calls ! i))) @ '' UTC (Pull #'' @ str_int (k + 1 + int i) @
                   '')'' @ [CHR 0x0A, CHR 0x0A] @
                   ''Source: '' @ rss_url m0 @ [CHR 0x0A, CHR 0x0A] @
                   concat (map entry_section (entries (snd (calls ! i))))),
             Some (PInt (k + 1 + int i)))) \<and>
       distinct (map fst arts))"
proof -
  from persisted obtain kvs where sf: "state_file w0 = Json (PDict kvs)"
    and cnt: "map_of kvs ''pull_count'' = Some (PInt k)"
    by (auto simp: persisted_pull_count_def split: state_file.splits pyval.splits)
  with loaded have r: "r = Inr ()" and m: "m = m0\<lparr>pull_count := PInt k\<rparr>"
    and w: "w = add_log (Info_loaded_state (PInt k)) w0"
    by (simp_all add: load_state_def)
  from m have pc: "pull_count m = PInt k" and url: "rss_url m = rss_url m0" by simp_all
  from w persisted have pw: "persisted_pull_count w = Some (PInt k)"
    by (simp add: persisted_pull_count_def add_log_def)
  from generate_all_ok [OF ok pc, of fl w]
  obtain m' w' where run: "generate_all fl calls m w = (Inr (artifacts_from (rss_url m) k calls), m', w')"
    and pc': "pull_count m' = PInt (k + int (length calls))"
    and same: "calls = [] \<longrightarrow> w' = w"
    and pers': "calls \<noteq> [] \<longrightarrow> persisted_pull_count w' = Some (PInt (k + int (length calls)))"
    by blast
  have pers: "persisted_pull_count w' = Some (PInt (k + int (length calls)))"
  proof (cases "calls = []")
    case True
    with same pw show ?thesis by simp
  next
    case False
    with pers' show ?thesis by simp
  qed
  have nth: "\<forall>i<length calls.
          (artifacts_from (rss_url m) k calls :: (string \<times> string option \<times> 'a pyval option) list) ! i =
            (''data/'' @ date_str (now (fst (calls ! i))) @ ''-'' @ time_str (now (fst (calls ! i))) @
               ''-pull'' @ str_int (k + 1 + int i) @ ''.md'',
             Some (''# CVE Vulnerability Report - '' @ date_str (now (fst (calls ! i))) @ '' '' @
                   time_str (now (fst (calls ! i))) @ '' UTC (Pull #'' @ str_int (k + 1 + int i) @
                   '')'' @ [CHR 0x0A, CHR 0x0A] @
                   ''Source: '' @ rss_url m0 @ [CHR 0x0A, CHR 0x0A] @
                   concat (map entry_section (entries (snd (calls ! i))))),
             Some (PInt (k + 1 + int i)))"
    by (simp add: artifacts_from_nth artifact_of_def artifact_name_def report_text_def
        report_name_def report_header_def url)
  from run pers pc' nth r show ?thesis
    using artifacts_from_length [of "rss_url m" k calls] artifacts_from_distinct [of "rss_url m" k calls]
    by blast
qed

theorem pull_count_lockstep_witness:
  "persisted_pull_count (world_with (Json (PDict [(''pull_count'', PInt 5)])) :: unit world) =
     Some (PInt 5) \<and>
   (case load_state (monitor_with PNone (PInt 0)) (world_with (Json (PDict [(''pull_count'', PInt 5)]))) of
      (r, m, w) \<Rightarrow>
        r = Inr () \<and>
        (case generate_all unit_float_ops
            [(calm_env scenario_time (Parse_raises []), feed_of [titled ''CVE-2024-0001'']),
             (calm_env scenario_time (Parse_raises []), feed_of [titled ''CVE-2024-0002''])] m w of
           (res, m', w') \<Rightarrow>
             res =
               Inr [(''data/2024-01-01-000005-pull6.md'',
                     Some (''# CVE Vulnerability Report - 2024-01-01 000005 UTC (Pull #6)'' @
                           [CHR 0x0A, CHR 0x0A] @
                           ''Source: https://cvefeed.io/rssfeed/severity/high.xml'' @
                           [CHR 0x0A, CHR 0x0A] @
                           ''## CVE-2024-0001'' @ [CHR 0x0A] @
                           ''- **Link**: [No link](No link)'' @ [CHR 0x0A] @
                           ''- **Published**: Unknown'' @ [CHR 0x0A] @
                           ''- **Description**: No description'' @ [CHR 0x0A, CHR 0x0A]),
                     Some (PInt 6)),
                    (''data/2024-01-01-000005-pull7.md'',
                     Some (''# CVE Vulnerability Report - 2024-01-01 000005 UTC (Pull #7)'' @
                           [CHR 0x0A, CHR 0x0A] @
                           ''Source: https://cvefeed.io/rssfeed/severity/high.xml'' @
                           [CHR 0x0A, CHR 0x0A] @
                           ''## CVE-2024-0002'' @ [CHR 0x0A] @
                           ''- **Link**: [No link](No link)'' @ [CHR 0x0A] @
                           ''- **Published**: Unknown'' @ [CHR 0x0A] @
                           ''- **Description**: No description'' @ [CHR 0x0A, CHR 0x0A]),
                     Some (PInt 7))] \<and>
             pull_count m' = PInt 7 \<and>
             persisted_pull_count w' = Some (PInt 7)))"
  using pull_count_lockstep [where ?m0.0 = "monitor_with PNone (PInt 0) :: unit monitor"
      and ?w0.0 = "world_with (Json (PDict [(''pull_count'', PInt 5)]))"
      and k = 5 and fl = unit_float_ops
      and calls = "[(calm_env scenario_time (Parse_raises []), feed_of [titled ''CVE-2024-0001'']),
             (calm_env scenario_time (Parse_raises []), feed_of [titled ''CVE-2024-0002''])]"
      and r = "Inr ()" and m = "monitor_with PNone (PInt 5)"
      and w = "add_log (Info_loaded_state (PInt 5)) (world_with (Json (PDict [(''pull_count'', PInt 5)])))"]
  by (simp add: eval_defs load_state_def persisted_pull_count_def)

section \<open>A failed write\<close>

text \<open>
  C2, as stated: a write that raises leaves the in-memory counter unchanged. With the
  counter at 5 and \<^verbatim>\<open>open\<close> failing on the report, the method raises OSError, the
  state file still holds 5, and the object's counter is 6.
\<close>

theorem failed_write_keeps_increment:
  "generate_markdown unit_float_ops
     ((calm_env scenario_time (Parse_returns (feed_of [titled ''CVE-2024-0001''])))\<lparr>report_io := Io_open_fails\<rparr>)
     (monitor_with PNone (PInt 5)) (world_with (Json (PDict [(''pull_count'', PInt 5)])))
     (Some (feed_of [titled ''CVE-2024-0001''])) =
   (Inl OSError, monitor_with PNone (PInt 6), world_with (Json (PDict [(''pull_count'', PInt 5)])))"
  by (simp add: eval_defs)

text \<open>
  C2, amended: called with entries and an integer counter \<open>k\<close>, \<^verbatim>\<open>generate_markdown\<close>
  increments the in-memory counter to \<open>k + 1\<close> before it opens the report, whatever
  happens next. \<^verbatim>\<open>save_state\<close> is called exactly when the report's write succeeds:
  when the write raises, OSError leaves the method, and the state file and the log are
  as before; when the write succeeds, the report is logged and the state is saved, which
  puts \<open>k + 1\<close> in the state file and logs it, or raises OSError in its turn.
\<close>

theorem generate_markdown_failed_write:
  assumes "entries fd \<noteq> []" and "pull_count m = PInt k"
    and "generate_markdown fl e m w (Some fd) = (r, m', w')"
  shows "pull_count m' = PInt (k + 1) \<and>
         (report_io e \<noteq> Io_ok \<longrightarrow>
            r = Inl OSError \<and> state_file w' = state_file w \<and> log w' = log w) \<and>
         (report_io e = Io_ok \<and> state_io e = Io_ok \<longrightarrow>
            r = Inr (Some (''data/'' @
                  report_name (date_str (now e)) (time_str (now e)) (str_int (k + 1)))) \<and>
            state_file w' = Json (PDict [(''pull_count'', PInt (k + 1))]) \<and>
            log w' = log w @
              [Info_generated (''data/'' @
                 report_name (date_str (now e)) (time_str (now e)) (str_int (k + 1))),
               Info_saved_state (PInt (k + 1))]) \<and>
         (report_io e = Io_ok \<and> state_io e \<noteq> Io_ok \<longrightarrow>
            r = Inl OSError \<and>
            log w' = log w @
              [Info_generated (''data/'' @
                 report_name (date_str (now e)) (time_str (now e)) (str_int (k + 1)))])"
  using assms(3) unfolding generate_markdown_int [OF assms(1,2)]
  by (auto simp: Let_def add_log_def split: io.splits)

theorem generate_markdown_failed_write_witness:
  "entries (feed_of [titled ''CVE-2024-0001'']) \<noteq> [] \<and>
   pull_count (monitor_with PNone (PInt 5) :: unit monitor) = PInt 5 \<and>
   report_io ((calm_env scenario_time (Parse_returns (feed_of [])))\<lparr>report_io := Io_open_fails\<rparr>) \<noteq> Io_ok \<and>
   generate_markdown unit_float_ops
     ((calm_env scenario_time (Parse_returns (feed_of [])))\<lparr>report_io := Io_open_fails\<rparr>)
     (monitor_with PNone (PInt 5)) (world_with (Json (PDict [(''pull_count'', PInt 5)])))
     (Some (feed_of [titled ''CVE-2024-0001''])) =
   (Inl OSError, monitor_with PNone (PInt 6), world_with (Json (PDict [(''pull_count'', PInt 5)])))"
  using generate_markdown_failed_write [of "feed_of [titled ''CVE-2024-0001'']"
      "monitor_with PNone (PInt 5) :: unit monitor" 5 unit_float_ops
      "(calm_env scenario_time (Parse_returns (feed_of [])))\<lparr>report_io := Io_open_fails\<rparr>"
      "world_with (Json (PDict [(''pull_count'', PInt 5)]))"
      "Inl OSError" "monitor_with PNone (PInt 6)" "world_with (Json (PDict [(''pull_count'', PInt 5)]))"]
  by (simp add: eval_defs)

section \<open>Loading the state\<close>

text \<open>
  C3, as stated: \<^verbatim>\<open>load_state\<close> never raises and leaves the counter at 0 for every
  malformed content. A state file holding the JSON array \<^verbatim>\<open>[]\<close> makes \<^verbatim>\<open>state.get\<close>
  raise AttributeError, which the handler does not catch; a state file holding
  \<^verbatim>\<open>{"pull_count": -1}\<close> leaves the counter at -1.
\<close>

theorem load_state_counterexample:
  "fst (load_state (monitor_with PNone (PInt 0)) (world_with (Json (PList []) :: unit state_file)))
     = Inl AttributeError \<and>
   pull_count (fst (snd (load_state (monitor_with PNone (PInt 0))
      (world_with (Json (PDict [(''pull_count'', PInt (- 1))]) :: unit state_file)))))
     = PInt (- 1)"
  by (simp add: load_state_def world_with_def monitor_with_def)

text \<open>
  C3, amended: when the state file is missing or its text is not JSON, \<^verbatim>\<open>load_state\<close>
  returns normally with the counter at 0; when \<^verbatim>\<open>json.load\<close> decodes the file to a
  JSON object, it returns normally with the counter set to the object's
  \<^verbatim>\<open>pull_count\<close> member as it stands (0 when the object has none). Nothing is said
  of the contents on which the method raises: bytes that are not text, JSON that the
  decoder refuses (\<open>Json_int_too_long\<close>, \<open>Json_too_deep\<close>), and JSON that is not an
  object.
\<close>

theorem load_state_fail_open:
  "(state_file w = NoFile \<or> state_file w = NotJson \<longrightarrow>
      load_state m w = (Inr (), m\<lparr>pull_count := PInt 0\<rparr>, add_log Info_no_valid_state w)) \<and>
   (state_file w = Json (PDict kvs) \<longrightarrow>
      load_state m w =
        (Inr (),
         m\<lparr>pull_count := (case map_of kvs ''pull_count'' of None \<Rightarrow> PInt 0 | Some v \<Rightarrow> v)\<rparr>,
         add_log
           (Info_loaded_state (case map_of kvs ''pull_count'' of None \<Rightarrow> PInt 0 | Some v \<Rightarrow> v))
           w))"
  by (auto simp: load_state_def split: option.splits)

theorem load_state_fail_open_witness:
  "load_state (monitor_with PNone (PInt 7)) (world_with (NotJson :: unit state_file)) =
     (Inr (), monitor_with PNone (PInt 0),
      add_log Info_no_valid_state (world_with NotJson)) \<and>
   load_state (monitor_with PNone (PInt 0))
      (world_with (Json (PDict [(''pull_count'', PInt 5)]) :: unit state_file)) =
     (Inr (), monitor_with PNone (PInt 5),
      add_log (Info_loaded_state (PInt 5)) (world_with (Json (PDict [(''pull_count'', PInt 5)]))))"
  using load_state_fail_open [of "world_with (NotJson :: unit state_file)" "monitor_with PNone (PInt 7)" "[]"]
    load_state_fail_open [of "world_with (Json (PDict [(''pull_count'', PInt 5)]) :: unit state_file)"
       "monitor_with PNone (PInt 0)" "[(''pull_count'', PInt 5)]"]
  by (simp add: world_with_def monitor_with_def)

section \<open>The fetch cycle\<close>

text \<open>
  C4. The claim is that no failure of a stage leaves \<^verbatim>\<open>run_rss_update\<close>. The fetch
  stage catches its exceptions, and so does the notifier; the report writer does not.
  With one entry fetched and \<^verbatim>\<open>open\<close> failing on the report, the cycle raises OSError
  and logs no error, and \<^verbatim>\<open>run_forever\<close> ends with that exception although a later
  cycle would have succeeded.
\<close>

theorem write_failure_ends_the_loop:
  "run_rss_update unit_float_ops
     ((calm_env scenario_time (Parse_returns (feed_of [titled ''CVE-2024-0001''])))\<lparr>report_io := Io_open_fails\<rparr>)
     (monitor_with PNone (PInt 5)) (world_with (Json (PDict [(''pull_count'', PInt 5)]))) =
   (Inl OSError, monitor_with PNone (PInt 6),
    (world_with (Json (PDict [(''pull_count'', PInt 5)])))
      \<lparr>log := [Info_starting_rss_update,
               Info_fetching ''https://cvefeed.io/rssfeed/severity/high.xml'', Info_fetched 1]\<rparr>) \<and>
   fst (run_forever unit_float_ops
     (calm_env scenario_time (Parse_returns (feed_of [titled ''CVE-2024-0001''])))
     [Rss_update ((calm_env scenario_time (Parse_returns (feed_of [titled ''CVE-2024-0001''])))\<lparr>report_io := Io_open_fails\<rparr>),
      Rss_update (calm_env scenario_time (Parse_returns (feed_of [titled ''CVE-2024-0001''])))]
     (monitor_with PNone (PInt 5)) (world_with (Json (PDict [(''pull_count'', PInt 5)])))) =
   Inl OSError"
  by (simp add: eval_defs run_forever_def run_job_def)

text \<open>
  C6. The scenario: two entries titled CVE-2024-0001 and CVE-2024-0002, fetched at
  2024-01-01T00:00:05Z with the counter at 5 and nothing failing. The cycle returns
  \<^verbatim>\<open>data/2024-01-01-000005-pull6.md\<close> and the object's counter is 6; afterwards the
  \<^verbatim>\<open>data\<close> directory has a file of that name, which holds the header with
  \<^verbatim>\<open>Pull #6\<close>, the source line and two \<^verbatim>\<open>##\<close> sections in which the absent link,
  date and description are replaced by their defaults; every other file is as before;
  the state file holds \<^verbatim>\<open>{"pull_count": 6}\<close>. An entry with no title is headed
  \<^verbatim>\<open>Untitled\<close>.
\<close>

theorem end_to_end_scenario:
  "(case run_rss_update fl
      (calm_env scenario_time
         (Parse_returns (feed_of [titled ''CVE-2024-0001'', titled ''CVE-2024-0002''])))
      \<lparr>rss_url = url, email_config = cfg, pull_count = PInt 5\<rparr> w of
      (r, m', w') \<Rightarrow>
        r = Inr [''data/2024-01-01-000005-pull6.md''] \<and>
        m' = \<lparr>rss_url = url, email_config = cfg, pull_count = PInt 6\<rparr> \<and>
        map_of (data_dir w') ''2024-01-01-000005-pull6.md'' =
          Some (''# CVE Vulnerability Report - 2024-01-01 000005 UTC (Pull #6)'' @ [CHR 0x0A, CHR 0x0A] @
                ''Source: '' @ url @ [CHR 0x0A, CHR 0x0A] @
                ''## CVE-2024-0001'' @ [CHR 0x0A] @
                ''- **Link**: [No link](No link)'' @ [CHR 0x0A] @
                ''- **Published**: Unknown'' @ [CHR 0x0A] @
                ''- **Description**: No description'' @ [CHR 0x0A, CHR 0x0A] @
                ''## CVE-2024-0002'' @ [CHR 0x0A] @
                ''- **Link**: [No link](No link)'' @ [CHR 0x0A] @
                ''- **Published**: Unknown'' @ [CHR 0x0A] @
                ''- **Description**: No description'' @ [CHR 0x0A, CHR 0x0A]) \<and>
        (\<forall>n. n \<noteq> ''2024-01-01-000005-pull6.md'' \<longrightarrow>
             map_of (data_dir w') n = map_of (data_dir w) n) \<and>
        state_file w' = Json (PDict [(''pull_count'', PInt 6)]) \<and>
        log w' = log w @
          [Info_starting_rss_update, Info_fetching url, Info_fetched 2,
           Info_generated ''data/2024-01-01-000005-pull6.md'', Info_saved_state (PInt 6)] \<and>
        smtp_calls w' = smtp_calls w) \<and>
   entry_section \<lparr>title = None, link = None, published = None, description = None\<rparr> =
     ''## Untitled'' @ [CHR 0x0A] @
     ''- **Link**: [No link](No link)'' @ [CHR 0x0A] @
     ''- **Published**: Unknown'' @ [CHR 0x0A] @
     ''- **Description**: No description'' @ [CHR 0x0A, CHR 0x0A]"
proof -
  have run: "run_rss_update fl
     (calm_env scenario_time
        (Parse_returns (feed_of [titled ''CVE-2024-0001'', titled ''CVE-2024-0002''])))
     \<lparr>rss_url = url, email_config = cfg, pull_count = PInt 5\<rparr> w =
   (Inr [''data/2024-01-01-000005-pull6.md''],
    \<lparr>rss_url = url, email_config = cfg, pull_count = PInt 6\<rparr>,
    w\<lparr>data_dir :=
        put_file ''2024-01-01-000005-pull6.md''
          (''# CVE Vulnerability Report - 2024-01-01 000005 UTC (Pull #6)'' @ [CHR 0x0A, CHR 0x0A] @
           ''Source: '' @ url @ [CHR 0x0A, CHR 0x0A] @
           ''## CVE-2024-0001'' @ [CHR 0x0A] @
           ''- **Link**: [No link](No link)'' @ [CHR 0x0A] @
           ''- **Published**: Unknown'' @ [CHR 0x0A] @
           ''- **Description**: No description'' @ [CHR 0x0A, CHR 0x0A] @
           ''## CVE-2024-0002'' @ [CHR 0x0A] @
           ''- **Link**: [No link](No link)'' @ [CHR 0x0A] @
           ''- **Published**: Unknown'' @ [CHR 0x0A] @
           ''- **Description**: No description'' @ [CHR 0x0A, CHR 0x0A])
          (data_dir w),
      state_file := Json (PDict [(''pull_count'', PInt 6)]),
      log := log w @
        [Info_starting_rss_update, Info_fetching url, Info_fetched 2,
         Info_generated ''data/2024-01-01-000005-pull6.md'', Info_saved_state (PInt 6)]\<rparr>)"
    by (simp add: run_rss_update_def fetch_rss_feed_def generate_markdown_def save_state_def
        add_log_def calm_env_def feed_of_def titled_def scenario_time_def date_str_def time_str_def
        zero_pad_def str_int_def digit_char_def report_name_def report_text_def report_header_def
        entry_section_def or_default_def Let_def)
  have untitled: "entry_section \<lparr>title = None, link = None, published = None, description = None\<rparr> =
     ''## Untitled'' @ [CHR 0x0A] @
     ''- **Link**: [No link](No link)'' @ [CHR 0x0A] @
     ''- **Published**: Unknown'' @ [CHR 0x0A] @
     ''- **Description**: No description'' @ [CHR 0x0A, CHR 0x0A]"
    by (simp add: entry_section_def or_default_def)
  show ?thesis
    unfolding run using untitled
    by (simp add: map_of_put_file map_of_put_file_other)
qed

theorem end_to_end_scenario_witness:
  "(case run_rss_update unit_float_ops
      (calm_env scenario_time
         (Parse_returns (feed_of [titled ''CVE-2024-0001'', titled ''CVE-2024-0002''])))
      (monitor_with PNone (PInt 5)) (world_with (Json (PDict [(''pull_count'', PInt 5)]))) of
      (r, m', w') \<Rightarrow>
        r = Inr [''data/2024-01-01-000005-pull6.md''] \<and>
        pull_count m' = PInt 6 \<and>
        data_dir w' =
          [(''2024-01-01-000005-pull6.md'',
            ''# CVE Vulnerability Report - 2024-01-01 000005 UTC (Pull #6)'' @ [CHR 0x0A, CHR 0x0A] @
            ''Source: https://cvefeed.io/rssfeed/severity/high.xml'' @ [CHR 0x0A, CHR 0x0A] @
            ''## CVE-2024-0001'' @ [CHR 0x0A] @
            ''- **Link**: [No link](No link)'' @ [CHR 0x0A] @
            ''- **Published**: Unknown'' @ [CHR 0x0A] @
            ''- **Description**: No description'' @ [CHR 0x0A, CHR 0x0A] @
            ''## CVE-2024-0002'' @ [CHR 0x0A] @
            ''- **Link**: [No link](No link)'' @ [CHR 0x0A] @
            ''- **Published**: Unknown'' @ [CHR 0x0A] @
            ''- **Description**: No description'' @ [CHR 0x0A, CHR 0x0A])] \<and>
        state_file w' = Json (PDict [(''pull_count'', PInt 6)]))"
  using end_to_end_scenario [where fl = unit_float_ops and cfg = PNone
      and url = "''https://cvefeed.io/rssfeed/severity/high.xml''"
      and w = "world_with (Json (PDict [(''pull_count'', PInt 5)]))"]
  by (simp add: eval_defs)

text \<open>
  C8, as stated: with zero entries the caller never invokes the report writer. After a
  cycle whose feed parsed cleanly and is empty, the log holds the warning
  \<^verbatim>\<open>No entries to generate markdown\<close>, which only \<^verbatim>\<open>generate_markdown\<close> writes.
\<close>

theorem empty_feed_reaches_writer:
  "Warning_no_entries \<in> set (log (snd (snd
     (run_rss_update unit_float_ops (calm_env scenario_time (Parse_returns (feed_of [])))
        (monitor_with PNone (PInt 5)) (world_with NoFile)))))"
  by (simp add: eval_defs)

text \<open>
  C8, amended: when the feed parses cleanly and has zero entries, \<^verbatim>\<open>run_rss_update\<close>
  does call \<^verbatim>\<open>generate_markdown\<close>, whose own guard logs a warning and returns at once:
  the cycle returns the empty list, and the counter, the state file and the
  \<^verbatim>\<open>data\<close> directory are unchanged.
\<close>

theorem empty_feed_changes_nothing:
  "run_rss_update fl (e\<lparr>feed_result := Parse_returns \<lparr>bozo = False, bozo_exception = b, entries = []\<rparr>\<rparr>) m w =
     (Inr [], m,
      w\<lparr>log := log w @
         [Info_starting_rss_update, Info_fetching (rss_url m), Info_fetched 0, Warning_no_entries]\<rparr>)"
  by (simp add: run_rss_update_def fetch_rss_feed_def generate_markdown_def add_log_def)

theorem empty_feed_changes_nothing_witness:
  "run_rss_update unit_float_ops (calm_env scenario_time (Parse_returns (feed_of [])))
        (monitor_with PNone (PInt 5)) (world_with (Json (PDict [(''pull_count'', PInt 5)]))) =
     (Inr [], monitor_with PNone (PInt 5),
      \<lparr>state_file = Json (PDict [(''pull_count'', PInt 5)]), data_dir = [],
        log = [Info_starting_rss_update,
               Info_fetching ''https://cvefeed.io/rssfeed/severity/high.xml'', Info_fetched 0,
               Warning_no_entries],
        smtp_calls = []\<rparr>)"
  using empty_feed_changes_nothing [where fl = unit_float_ops
     and e = "calm_env scenario_time (Parse_returns (feed_of []))" and b = "[]"
     and m = "monitor_with PNone (PInt 5)"
     and w = "world_with (Json (PDict [(''pull_count'', PInt 5)]))"]
  by (simp add: calm_env_def feed_of_def world_with_def monitor_with_def)

text \<open>
  C9, as stated: a malformed document gives a failure classified apart from a transport
  failure. \<^verbatim>\<open>fetch_rss_feed\<close> returns the same value, \<^verbatim>\<open>None\<close>, for a bozo feed and
  for an exception of the parser.
\<close>

theorem fetch_failures_indistinguishable:
  "fst (fetch_rss_feed
          (calm_env scenario_time
             (Parse_returns \<lparr>bozo = True, bozo_exception = ''not well-formed'', entries = []\<rparr>))
          (monitor_with PNone (PInt 5)) (world_with (NoFile :: unit state_file))) =
   fst (fetch_rss_feed (calm_env scenario_time (Parse_raises ''connection refused''))
          (monitor_with PNone (PInt 5)) (world_with (NoFile :: unit state_file)))"
  by (simp add: eval_defs)

text \<open>
  C9, amended: for a bozo feed and for an exception of the parser alike,
  \<^verbatim>\<open>fetch_rss_feed\<close> returns \<^verbatim>\<open>None\<close> without raising; the two cases differ only in
  the error line logged. In both, \<^verbatim>\<open>run_rss_update\<close> returns the empty list without
  raising, and changes nothing but the log.
\<close>

theorem fetch_failure_skips_cycle:
  "(feed_result e = Parse_raises msg \<longrightarrow>
      fetch_rss_feed e m w =
        (Inr None, m, w\<lparr>log := log w @ [Info_fetching (rss_url m), Error_fetch_failed msg]\<rparr>) \<and>
      run_rss_update fl e m w =
        (Inr [], m,
         w\<lparr>log := log w @
            [Info_starting_rss_update, Info_fetching (rss_url m), Error_fetch_failed msg]\<rparr>)) \<and>
   (feed_result e = Parse_returns fd \<and> bozo fd \<longrightarrow>
      fetch_rss_feed e m w =
        (Inr None, m,
         w\<lparr>log := log w @ [Info_fetching (rss_url m), Error_parsing (bozo_exception fd)]\<rparr>) \<and>
      run_rss_update fl e m w =
        (Inr [], m,
         w\<lparr>log := log w @
            [Info_starting_rss_update, Info_fetching (rss_url m),
             Error_parsing (bozo_exception fd)]\<rparr>))"
  by (simp add: run_rss_update_def fetch_rss_feed_def add_log_def)

theorem fetch_failure_skips_cycle_witness:
  "run_rss_update unit_float_ops (calm_env scenario_time (Parse_raises ''connection refused''))
     (monitor_with PNone (PInt 5)) (world_with NoFile) =
     (Inr [], monitor_with PNone (PInt 5),
      (world_with NoFile)\<lparr>log :=
         [Info_starting_rss_update, Info_fetching ''https://cvefeed.io/rssfeed/severity/high.xml'',
          Error_fetch_failed ''connection refused'']\<rparr>) \<and>
   run_rss_update unit_float_ops
     (calm_env scenario_time
        (Parse_returns \<lparr>bozo = True, bozo_exception = ''not well-formed'',
           entries = [titled ''CVE-2024-0001'']\<rparr>))
     (monitor_with PNone (PInt 5)) (world_with NoFile) =
     (Inr [], monitor_with PNone (PInt 5),
      (world_with NoFile)\<lparr>log :=
         [Info_starting_rss_update, Info_fetching ''https://cvefeed.io/rssfeed/severity/high.xml'',
          Error_parsing ''not well-formed'']\<rparr>)"
  using fetch_failure_skips_cycle [where e = "calm_env scenario_time (Parse_raises ''connection refused'')"
      and msg = "''connection refused''" and m = "monitor_with PNone (PInt 5)"
      and w = "world_with NoFile" and fl = unit_float_ops]
    fetch_failure_skips_cycle [where e = "calm_env scenario_time
        (Parse_returns \<lparr>bozo = True, bozo_exception = ''not well-formed'',
           entries = [titled ''CVE-2024-0001'']\<rparr>)"
      and m = "monitor_with PNone (PInt 5)" and w = "world_with NoFile" and fl = unit_float_ops
      and fd = "\<lparr>bozo = True, bozo_exception = ''not well-formed'',
           entries = [titled ''CVE-2024-0001'']\<rparr>"]
  by (simp add: calm_env_def world_with_def monitor_with_def)

section \<open>The digest\<close>

lemma send_email_frame:
  "send_email fl e m w files = (r, m', w') \<Longrightarrow>
     m' = m \<and> state_file w' = state_file w \<and> data_dir w' = data_dir w"
  by (auto simp: send_email_def add_log_def split: if_splits sum.splits prod.splits option.splits)

text \<open>
  C10. \<^verbatim>\<open>send_email\<close> and \<^verbatim>\<open>run_daily_email\<close> leave the monitor, and with it
  \<^verbatim>\<open>pull_count\<close>, and the state file as they were, for every configuration, every
  content of the \<^verbatim>\<open>data\<close> directory and every behaviour of the mail transport.
\<close>

theorem digest_leaves_state:
  "fst (snd (send_email fl e m w files)) = m \<and>
   state_file (snd (snd (send_email fl e m w files))) = state_file w \<and>
   fst (snd (run_daily_email fl today e m w)) = m \<and>
   state_file (snd (snd (run_daily_email fl today e m w))) = state_file w"
proof -
  have a: "fst (snd (send_email fl e m w files)) = m \<and>
      state_file (snd (snd (send_email fl e m w files))) = state_file w" for files w
    using send_email_frame [of fl e m w files] by (metis prod.collapse)
  have "fst (snd (run_daily_email fl today e m w)) = m \<and>
      state_file (snd (snd (run_daily_email fl today e m w))) = state_file w"
    unfolding run_daily_email_def Let_def
    using a [of "add_log Info_starting_daily_email w"]
    by (auto simp: add_log_def split: prod.splits sum.splits dest!: send_email_frame)
  with a show ?thesis by simp
qed

theorem digest_leaves_state_witness:
  "fst (snd (run_daily_email unit_float_ops scenario_time (calm_env scenario_time (Parse_raises []))
      (monitor_with (mail_config 587) (PInt 5))
      ((world_with (Json (PDict [(''pull_count'', PInt 5)])))
         \<lparr>data_dir := [(''2024-01-01-000005-pull5.md'', ''# report'')]\<rparr>))) =
     monitor_with (mail_config 587) (PInt 5) \<and>
   state_file (snd (snd (run_daily_email unit_float_ops scenario_time
      (calm_env scenario_time (Parse_raises []))
      (monitor_with (mail_config 587) (PInt 5))
      ((world_with (Json (PDict [(''pull_count'', PInt 5)])))
         \<lparr>data_dir := [(''2024-01-01-000005-pull5.md'', ''# report'')]\<rparr>)))) =
     Json (PDict [(''pull_count'', PInt 5)]) \<and>
   map (\<lambda>c. case c of Sendmail a b msg \<Rightarrow> map fst (msg_attachments msg) | _ \<Rightarrow> [])
     (smtp_calls (snd (snd (run_daily_email unit_float_ops scenario_time
      (calm_env scenario_time (Parse_raises []))
      (monitor_with (mail_config 587) (PInt 5))
      ((world_with (Json (PDict [(''pull_count'', PInt 5)])))
         \<lparr>data_dir := [(''2024-01-01-000005-pull5.md'', ''# report'')]\<rparr>))))) =
     [[], [], [], [''2024-01-01-000005-pull5.md''], []]"
  using digest_leaves_state [where fl = unit_float_ops and today = scenario_time
      and e = "calm_env scenario_time (Parse_raises [])"
      and m = "monitor_with (mail_config 587) (PInt 5)"
      and w = "(world_with (Json (PDict [(''pull_count'', PInt 5)])))
         \<lparr>data_dir := [(''2024-01-01-000005-pull5.md'', ''# report'')]\<rparr>"]
  by (simp add: mail_defs eval_defs run_daily_email_def listdir_def startswith_def endswith_def
      read_file_def basename_def)

lemma smtp_deliver_trace:
  assumes "map_of kvs ''from'' = Some frm" and "map_of kvs ''to'' = Some rcpts"
  shows "snd (smtp_deliver e (PDict kvs) msg calls) =
           calls @ Sendmail frm rcpts msg # (if smtp_sendmail_ok e then [Quit] else [])"
  using assms by (simp add: smtp_deliver_def)

lemma smtp_login_trace:
  assumes "map_of kvs ''from'' = Some frm" and "map_of kvs ''to'' = Some rcpts"
    and "smtp_login_ok e"
  shows "snd (smtp_login fl e (PDict kvs) msg calls) =
           calls @
           (case (map_of kvs ''username'', map_of kvs ''password'') of
              (Some u, Some p) \<Rightarrow> if py_truthy fl u \<and> py_truthy fl p then [Login u p] else []
            | _ \<Rightarrow> []) @
           Sendmail frm rcpts msg # (if smtp_sendmail_ok e then [Quit] else [])"
  using assms(3) smtp_deliver_trace [OF assms(1,2)]
  by (simp add: smtp_login_def split: option.splits)

lemma smtp_connect_trace:
  assumes "map_of kvs ''smtp_port'' = Some port" and "map_of kvs ''smtp_server'' = Some host"
    and "map_of kvs ''from'' = Some frm" and "map_of kvs ''to'' = Some rcpts"
    and "smtp_connect_ok e" and "smtp_starttls_ok e" and "smtp_login_ok e"
  shows "snd (smtp_connect fl e (PDict kvs) msg) =
           (if py_eq_int fl port 465 then [SMTP_SSL host port]
            else if py_truthy fl (case map_of kvs ''use_tls'' of None \<Rightarrow> PBool False | Some t \<Rightarrow> t)
              then [SMTP host port, Starttls]
            else [SMTP host port]) @
           (case (map_of kvs ''username'', map_of kvs ''password'') of
              (Some u, Some p) \<Rightarrow> if py_truthy fl u \<and> py_truthy fl p then [Login u p] else []
            | _ \<Rightarrow> []) @
           Sendmail frm rcpts msg # (if smtp_sendmail_ok e then [Quit] else [])"
  using assms(1,2,5,6) smtp_login_trace [OF assms(3,4,7)]
  by (simp add: smtp_connect_def split: option.splits)

lemma compose_message_keys:
  assumes "email_config m = PDict kvs" and "compose_message e m w files = Inr msg"
  shows "\<exists>frm rcpts. map_of kvs ''from'' = Some frm \<and> map_of kvs ''to'' = Some rcpts"
  using assms by (auto simp: compose_message_def split: option.splits sum.splits)

text \<open>
  C7. The message is composed and the transport accepts the connection, STARTTLS and
  login. Then the first call is \<^verbatim>\<open>SMTP_SSL\<close> when \<^verbatim>\<open>smtp_port == 465\<close> and \<^verbatim>\<open>SMTP\<close>
  otherwise; \<^verbatim>\<open>starttls\<close> is called exactly when the port is not 465 and \<^verbatim>\<open>use_tls\<close>
  is set (its value is true; it defaults to \<^verbatim>\<open>False\<close>); \<^verbatim>\<open>login\<close> is called exactly
  when the configuration has both a username and a password (both values true, which
  for a string means not empty).
\<close>

theorem transport_selection:
  assumes cfg: "email_config m = PDict kvs"
    and port: "map_of kvs ''smtp_port'' = Some port"
    and host: "map_of kvs ''smtp_server'' = Some host"
    and composed: "compose_message e m w files = Inr msg"
    and ok: "smtp_connect_ok e" "smtp_starttls_ok e" "smtp_login_ok e"
  shows "\<exists>calls. smtp_calls (snd (snd (send_email fl e m w files))) = smtp_calls w @ calls \<and>
           hd calls = (if py_eq_int fl port 465 then SMTP_SSL host port else SMTP host port) \<and>
           (SMTP_SSL host port \<in> set calls \<longleftrightarrow> py_eq_int fl port 465) \<and>
           (SMTP host port \<in> set calls \<longleftrightarrow> \<not> py_eq_int fl port 465) \<and>
           (Starttls \<in> set calls \<longleftrightarrow>
              \<not> py_eq_int fl port 465 \<and>
              py_truthy fl (case map_of kvs ''use_tls'' of None \<Rightarrow> PBool False | Some t \<Rightarrow> t)) \<and>
           ((\<exists>u p. Login u p \<in> set calls) \<longleftrightarrow>
              (\<exists>u p. map_of kvs ''username'' = Some u \<and> map_of kvs ''password'' = Some p \<and>
                     py_truthy fl u \<and> py_truthy fl p))"
proof -
  from compose_message_keys [OF cfg composed] obtain frm rcpts
    where frm: "map_of kvs ''from'' = Some frm" and rcpts: "map_of kvs ''to'' = Some rcpts"
    by blast
  let ?calls = "snd (smtp_connect fl e (PDict kvs) msg)"
  have trace: "?calls =
           (if py_eq_int fl port 465 then [SMTP_SSL host port]
            else if py_truthy fl (case map_of kvs ''use_tls'' of None \<Rightarrow> PBool False | Some t \<Rightarrow> t)
              then [SMTP host port, Starttls]
            else [SMTP host port]) @
           (case (map_of kvs ''username'', map_of kvs ''password'') of
              (Some u, Some p) \<Rightarrow> if py_truthy fl u \<and> py_truthy fl p then [Login u p] else []
            | _ \<Rightarrow> []) @
           Sendmail frm rcpts msg # (if smtp_sendmail_ok e then [Quit] else [])"
    by (rule smtp_connect_trace [OF port host frm rcpts ok])
  from port have "kvs \<noteq> []" by auto
  with cfg composed have sent: "smtp_calls (snd (snd (send_email fl e m w files))) = smtp_calls w @ ?calls"
    by (simp add: send_email_def add_log_def split: prod.splits option.splits)
  have "hd ?calls = (if py_eq_int fl port 465 then SMTP_SSL host port else SMTP host port)"
    unfolding trace by simp
  moreover have "SMTP_SSL host port \<in> set ?calls \<longleftrightarrow> py_eq_int fl port 465"
    unfolding trace by (auto split: option.splits)
  moreover have "SMTP host port \<in> set ?calls \<longleftrightarrow> \<not> py_eq_int fl port 465"
    unfolding trace by (auto split: option.splits)
  moreover have "Starttls \<in> set ?calls \<longleftrightarrow>
       \<not> py_eq_int fl port 465 \<and>
       py_truthy fl (case map_of kvs ''use_tls'' of None \<Rightarrow> PBool False | Some t \<Rightarrow> t)"
    unfolding trace by (auto split: option.splits)
  moreover have "(\<exists>u p. Login u p \<in> set ?calls) \<longleftrightarrow>
       (\<exists>u p. map_of kvs ''username'' = Some u \<and> map_of kvs ''password'' = Some p \<and>
              py_truthy fl u \<and> py_truthy fl p)"
  proof (cases "map_of kvs ''username''")
    case None
    then show ?thesis unfolding trace by (auto split: option.splits)
  next
    case u: (Some u)
    show ?thesis
    proof (cases "map_of kvs ''password''")
      case None
      with u show ?thesis unfolding trace by (auto split: option.splits)
    next
      case (Some p)
      with u show ?thesis unfolding trace by auto
    qed
  qed
  ultimately show ?thesis using sent by blast
qed

theorem transport_selection_witness:
  "smtp_calls (snd (snd (send_email unit_float_ops (calm_env scenario_time (Parse_raises []))
      (monitor_with (mail_config 587) (PInt 5)) (world_with NoFile) None))) =
     [SMTP (PStr ''smtp.example.org'') (PInt 587), Starttls, Login (PStr ''cve'') (PStr ''secret''),
      Sendmail (PStr ''cve@example.org'') (PList [PStr ''ops@example.org''])
        \<lparr>msg_from = PStr ''cve@example.org'', msg_to = ''ops@example.org'',
          msg_subject = ''CVE Vulnerability Report - 2024-01-01'',
          msg_body = ''Daily CVE vulnerability report is attached.'' @ [CHR 0x0A, CHR 0x0A],
          msg_attachments = []\<rparr>,
      Quit] \<and>
   hd (smtp_calls (snd (snd (send_email unit_float_ops (calm_env scenario_time (Parse_raises []))
      (monitor_with (mail_config 465) (PInt 5)) (world_with NoFile) None)))) =
     SMTP_SSL (PStr ''smtp.example.org'') (PInt 465)"
  using transport_selection [where m = "monitor_with (mail_config 587) (PInt 5)"
      and kvs = "[(''from'', PStr ''cve@example.org''), (''to'', PList [PStr ''ops@example.org'']),
            (''smtp_server'', PStr ''smtp.example.org''), (''smtp_port'', PInt 587),
            (''use_tls'', PBool True), (''username'', PStr ''cve''), (''password'', PStr ''secret'')]"
      and port = "PInt 587" and host = "PStr ''smtp.example.org''"
      and e = "calm_env scenario_time (Parse_raises [])" and w = "world_with NoFile"
      and files = None and fl = unit_float_ops
      and msg = "\<lparr>msg_from = PStr ''cve@example.org'', msg_to = ''ops@example.org'',
          msg_subject = ''CVE Vulnerability Report - 2024-01-01'',
          msg_body = ''Daily CVE vulnerability report is attached.'' @ [CHR 0x0A, CHR 0x0A],
          msg_attachments = []\<rparr>"]
  by (simp add: mail_defs eval_defs)

end
